theory Spec2Isabelle
  imports Complex_Main "HOL-Library.Word" "HOL-Library.Signed_Division" "HOL-Library.Log_Nat"
begin

section \<open>Outcomes\<close>

text \<open>
  The three exception classes of the program (\<^verbatim>\<open>lexer_error\<close>, \<^verbatim>\<open>syntax_error\<close>,
  \<^verbatim>\<open>runtime_error\<close>) are values of \<open>error\<close>; a function that can throw returns
  \<open>error + 'a\<close>.  Three further outcomes are not exceptions of the program:
  \<open>Assertion_failed\<close> is a failed \<^verbatim>\<open>assert\<close>, \<open>Undefined_behaviour\<close> marks an operation
  whose behaviour the C++ language leaves undefined (integer remainder by zero,
  \<^verbatim>\<open>front()\<close> of an empty deque, the use of a dangling iterator), and \<open>Out_of_fuel\<close> is
  returned by the fuel-bounded recursions below when the bound is used up.
\<close>

datatype error =
    Lexer_error string
  | Syntax_error string
  | Runtime_error string
  | Assertion_failed string
  | Undefined_behaviour string
  | Out_of_fuel

text \<open>Sequencing of two steps of which the first can throw.\<close>

definition bindE :: "error + 'a \<Rightarrow> ('a \<Rightarrow> error + 'b) \<Rightarrow> error + 'b" where
  "bindE m f = (case m of Inl e \<Rightarrow> Inl e | Inr x \<Rightarrow> f x)"

lemma bindE_cong [fundef_cong]:
  "m = m' \<Longrightarrow> (\<And>x. m' = Inr x \<Longrightarrow> f x = f' x) \<Longrightarrow> bindE m f = bindE m' f'"
  by (cases m') (simp_all add: bindE_def)

section \<open>number.cc\<close>

text \<open>
  \<^verbatim>\<open>int\<close> is a 32-bit two's complement word: \<open>+\<close>, \<open>-\<close> and \<open>*\<close> wrap around, and
  \<open>sint\<close> reads the signed value.  \<^verbatim>\<open>double\<close> is modelled by \<open>real\<close>: neither the
  rounding of IEEE-754 arithmetic nor infinities and NaN are modelled.
\<close>

type_synonym int32 = "32 word"

definition INT_MIN :: int32 where
  "INT_MIN = word_of_int (- (2 ^ 31))"

definition INT_MAX :: int32 where
  "INT_MAX = word_of_int (2 ^ 31 - 1)"

text \<open>The built-in \<^verbatim>\<open>/\<close> and \<^verbatim>\<open>%\<close> on \<^verbatim>\<open>int\<close> truncate towards zero.  The callers
  check the two cases that C++ leaves undefined (a zero divisor, and \<^verbatim>\<open>INT_MIN\<close> by \<open>-1\<close>).\<close>

definition int_div :: "int32 \<Rightarrow> int32 \<Rightarrow> int32" where
  "int_div a b = word_of_int (sint a sdiv sint b)"

definition int_rem :: "int32 \<Rightarrow> int32 \<Rightarrow> int32" where
  "int_rem a b = word_of_int (sint a smod sint b)"

definition division_overflows :: "int32 \<Rightarrow> int32 \<Rightarrow> bool" where
  "division_overflows a b \<longleftrightarrow> a = INT_MIN \<and> b = - 1"

record number =
  integral_value :: int32
  floating_point_value :: real
  integral :: bool

text \<open>\<^verbatim>\<open>number::number()\<close>, \<^verbatim>\<open>number::number(int)\<close> and \<^verbatim>\<open>number::number(double)\<close>.
  \<^verbatim>\<open>static_cast<int>\<close> truncates towards zero; outside the range of \<^verbatim>\<open>int\<close> the
  conversion is undefined in C++, and the model gives \<^verbatim>\<open>INT_MIN\<close> there, the result of
  the x86-64 conversion instruction.\<close>

definition number_default :: number where
  "number_default = \<lparr>integral_value = 0, floating_point_value = 0, integral = True\<rparr>"

definition number_of_int :: "int32 \<Rightarrow> number" where
  "number_of_int v =
     \<lparr>integral_value = v, floating_point_value = real_of_int (sint v), integral = True\<rparr>"

definition truncate_double :: "real \<Rightarrow> int" where
  "truncate_double v = (if 0 \<le> v then \<lfloor>v\<rfloor> else \<lceil>v\<rceil>)"

definition static_cast_int :: "real \<Rightarrow> int32" where
  "static_cast_int v =
     (if - (2 ^ 31) \<le> truncate_double v \<and> truncate_double v < 2 ^ 31
      then word_of_int (truncate_double v) else INT_MIN)"

definition number_of_double :: "real \<Rightarrow> number" where
  "number_of_double v =
     \<lparr>integral_value = static_cast_int v, floating_point_value = v, integral = False\<rparr>"

definition number_of_bool :: "bool \<Rightarrow> number" where
  "number_of_bool b = number_of_int (if b then 1 else 0)"

definition get_integral_value :: "number \<Rightarrow> int32" where
  "get_integral_value n = integral_value n"

definition get_floating_point_value :: "number \<Rightarrow> real" where
  "get_floating_point_value n = floating_point_value n"

definition is_integral :: "number \<Rightarrow> bool" where
  "is_integral n = integral n"

definition EPSILON :: real where
  "EPSILON = 1 / 2 ^ 52"

definition is_true :: "number \<Rightarrow> bool" where
  "is_true n \<longleftrightarrow>
     (integral n \<and> integral_value n \<noteq> 0) \<or> EPSILON \<le> \<bar>floating_point_value n\<bar>"

definition check_and_promote :: "number \<Rightarrow> number \<Rightarrow> number" where
  "check_and_promote this other =
     (if is_integral this \<and> is_integral other then this\<lparr>integral := True\<rparr>
      else this\<lparr>integral := False\<rparr>)"

text \<open>The compound assignments \<^verbatim>\<open>+=\<close>, \<^verbatim>\<open>-=\<close>, \<^verbatim>\<open>*=\<close>, \<^verbatim>\<open>/=\<close> and \<^verbatim>\<open>%=\<close>: the
  first argument is \<^verbatim>\<open>*this\<close>, the result is its new value.  The two components are
  computed separately, the integer one with \<^verbatim>\<open>int\<close> arithmetic and the floating-point one
  over the reals.  Where the floating-point divisor of \<^verbatim>\<open>/=\<close> is zero the program obtains
  an infinity or a NaN; the floating-point component of the model is not the value of the
  program there.\<close>

definition plus_assign :: "number \<Rightarrow> number \<Rightarrow> number" where
  "plus_assign this rhs =
     check_and_promote
       (this\<lparr>integral_value := integral_value this + integral_value rhs,
             floating_point_value := floating_point_value this + floating_point_value rhs\<rparr>)
       rhs"

definition minus_assign :: "number \<Rightarrow> number \<Rightarrow> number" where
  "minus_assign this rhs =
     check_and_promote
       (this\<lparr>integral_value := integral_value this - integral_value rhs,
             floating_point_value := floating_point_value this - floating_point_value rhs\<rparr>)
       rhs"

definition times_assign :: "number \<Rightarrow> number \<Rightarrow> number" where
  "times_assign this rhs =
     check_and_promote
       (this\<lparr>integral_value := integral_value this * integral_value rhs,
             floating_point_value := floating_point_value this * floating_point_value rhs\<rparr>)
       rhs"

definition div_assign :: "number \<Rightarrow> number \<Rightarrow> error + number" where
  "div_assign this rhs =
     (if get_integral_value rhs \<noteq> 0 then
        if division_overflows (integral_value this) (integral_value rhs)
        then Inl (Undefined_behaviour ''integer division overflow'')
        else
          Inr \<lparr>integral_value = int_div (integral_value this) (integral_value rhs),
               floating_point_value = floating_point_value this / floating_point_value rhs,
               integral =
                 (is_integral this \<and> is_integral rhs \<and>
                  int_rem (integral_value this) (integral_value rhs) = 0)\<rparr>
      else Inl (Runtime_error ''Division by zero''))"

definition mod_assign :: "number \<Rightarrow> number \<Rightarrow> error + number" where
  "mod_assign this rhs =
     (if is_integral this \<and> is_integral rhs then
        if get_integral_value rhs = 0
        then Inl (Undefined_behaviour ''integer remainder by zero'')
        else if division_overflows (integral_value this) (get_integral_value rhs)
        then Inl (Undefined_behaviour ''integer division overflow'')
        else
          (let r = int_rem (integral_value this) (get_integral_value rhs)
           in Inr (this\<lparr>integral_value := r, floating_point_value := real_of_int (sint r)\<rparr>))
      else Inl (Runtime_error ''Modulo operation is only defined on whole number types.''))"


definition number_minus :: "number \<Rightarrow> number \<Rightarrow> number" where
  "number_minus lhs rhs = minus_assign lhs rhs"



definition number_uminus :: "number \<Rightarrow> number" where
  "number_uminus num =
     (if is_integral num then number_of_int (- get_integral_value num)
      else number_of_double (- get_floating_point_value num))"

definition number_eq :: "number \<Rightarrow> number \<Rightarrow> bool" where
  "number_eq lhs rhs =
     (if is_integral lhs \<and> is_integral rhs
      then get_integral_value lhs = get_integral_value rhs
      else \<bar>get_floating_point_value lhs - get_floating_point_value rhs\<bar> < EPSILON)"

definition number_neq :: "number \<Rightarrow> number \<Rightarrow> bool" where
  "number_neq lhs rhs = (\<not> number_eq lhs rhs)"

definition number_less :: "number \<Rightarrow> number \<Rightarrow> bool" where
  "number_less lhs rhs =
     (if is_integral lhs \<and> is_integral rhs
      then sint (get_integral_value lhs) < sint (get_integral_value rhs)
      else get_floating_point_value lhs < get_floating_point_value rhs)"

definition number_less_eq :: "number \<Rightarrow> number \<Rightarrow> bool" where
  "number_less_eq lhs rhs = (number_less lhs rhs \<or> number_eq lhs rhs)"

definition number_greater :: "number \<Rightarrow> number \<Rightarrow> bool" where
  "number_greater lhs rhs = (\<not> number_less_eq lhs rhs)"

definition number_greater_eq :: "number \<Rightarrow> number \<Rightarrow> bool" where
  "number_greater_eq lhs rhs = (\<not> number_less lhs rhs)"


section \<open>Text and streams\<close>

text \<open>
  Characters are bytes.  The classification functions are those of the C locale.
  A stream is the list of the characters not yet read; a read at the end of the stream
  yields the end-of-file value, which a predicate on the peeked value receives as \<open>None\<close>.
\<close>

definition isdigit :: "char \<Rightarrow> bool" where
  "isdigit c \<longleftrightarrow> c \<in> set ''0123456789''"

definition isalpha :: "char \<Rightarrow> bool" where
  "isalpha c \<longleftrightarrow>
     c \<in> set ''abcdefghijklmnopqrstuvwxyz'' \<or> c \<in> set ''ABCDEFGHIJKLMNOPQRSTUVWXYZ''"

definition isalnum :: "char \<Rightarrow> bool" where
  "isalnum c \<longleftrightarrow> isalpha c \<or> isdigit c"

definition isspace :: "char \<Rightarrow> bool" where
  "isspace c \<longleftrightarrow> c \<in> set [CHR '' '', CHR 0x09, CHR 0x0A, CHR 0x0B, CHR 0x0C, CHR 0x0D]"

definition tolower :: "char \<Rightarrow> char" where
  "tolower c =
     (case map_of (zip ''ABCDEFGHIJKLMNOPQRSTUVWXYZ'' ''abcdefghijklmnopqrstuvwxyz'') c of
        Some l \<Rightarrow> l
      | None \<Rightarrow> c)"

definition digit_value :: "char \<Rightarrow> nat" where
  "digit_value c =
     (case map_of (zip ''0123456789'' [0, 1, 2, 3, 4, 5, 6, 7, 8, 9]) c of
        Some d \<Rightarrow> d
      | None \<Rightarrow> 0)"

definition digit_char :: "nat \<Rightarrow> char" where
  "digit_char d = ''0123456789'' ! (d mod 10)"

text \<open>Decimal output of an unsigned and of a signed integer, as \<^verbatim>\<open>operator<<\<close> prints
  them.\<close>

fun show_nat :: "nat \<Rightarrow> string" where
  "show_nat n = (if n < 10 then [digit_char n] else show_nat (n div 10) @ [digit_char n])"

declare show_nat.simps [simp del]

definition show_int :: "int \<Rightarrow> string" where
  "show_int i = (if i < 0 then CHR ''-'' # show_nat (nat (- i)) else show_nat (nat i))"

text \<open>The value of a run of decimal digits.\<close>

definition digits_value :: "string \<Rightarrow> nat" where
  "digits_value ds = foldl (\<lambda>acc c. 10 * acc + digit_value c) 0 ds"

text \<open>
  \<^verbatim>\<open>stream >> int\<close> on a string stream: leading white space is skipped, then an optional
  sign and a run of decimal digits are read, and everything after them is left unread.
  The result is the value stored and whether the extraction succeeded.  Without a digit the
  extraction fails and stores 0; a value outside the range of \<^verbatim>\<open>int\<close> fails and stores
  the nearest bound.
\<close>

definition extract_int :: "string \<Rightarrow> int32 \<times> bool" where
  "extract_int s =
     (let s1 = dropWhile isspace s;
          negative = (s1 \<noteq> [] \<and> hd s1 = CHR ''-'');
          s2 = (if s1 \<noteq> [] \<and> (hd s1 = CHR ''-'' \<or> hd s1 = CHR ''+'') then tl s1 else s1);
          ds = takeWhile isdigit s2;
          v = (if negative then - int (digits_value ds) else int (digits_value ds))
      in if ds = [] then (0, False)
         else if v < - (2 ^ 31) then (INT_MIN, False)
         else if 2 ^ 31 - 1 < v then (INT_MAX, False)
         else (word_of_int v, True))"

text \<open>
  \<^verbatim>\<open>stream >> double\<close> on the text of a number lexeme that holds a decimal point: digits,
  a point, digits.  The result is the exact decimal value (the rounding to the nearest
  \<^verbatim>\<open>double\<close> is not modelled); a text without any digit stores 0.
\<close>

definition extract_double :: "string \<Rightarrow> real" where
  "extract_double s =
     (let whole = takeWhile isdigit s;
          rest = dropWhile isdigit s;
          frac = (if rest \<noteq> [] \<and> hd rest = CHR ''.'' then takeWhile isdigit (tl rest) else [])
      in real (digits_value whole) + real (digits_value frac) / 10 ^ length frac)"

text \<open>\<^verbatim>\<open>std::getline\<close>: the characters up to the next newline, which is consumed and not
  stored; at the end of the stream the line is empty.\<close>

definition getline :: "string \<Rightarrow> string \<times> string" where
  "getline s =
     (takeWhile (\<lambda>c. c \<noteq> CHR 0x0A) s, drop 1 (dropWhile (\<lambda>c. c \<noteq> CHR 0x0A) s))"

section \<open>lexer.cc\<close>

text \<open>
  A lexeme keeps its type and its text.  The physical location (file name, line, column)
  that the program records with every lexeme is used only in the text of error messages;
  it is left out, and so is the location prefix of those messages.
\<close>

datatype e_type = type_word | type_symbol | type_number | type_string | type_end

record lexeme =
  l_type :: e_type
  l_value :: string

text \<open>The constructor \<^verbatim>\<open>lexeme::lexeme\<close>: words are put in lower case, and the leading
  zeroes of a number are removed unless the text holds nothing but zeroes.\<close>

definition make_lexeme :: "e_type \<Rightarrow> string \<Rightarrow> lexeme" where
  "make_lexeme t v =
     \<lparr>l_type = t,
      l_value =
        (if t = type_word then map tolower v
         else if t = type_number then
           (if v \<noteq> [] \<and> hd v = CHR ''0'' \<and> 1 < length v then
              (case dropWhile (\<lambda>c. c = CHR ''0'') v of [] \<Rightarrow> v | c # cs \<Rightarrow> c # cs)
            else v)
         else v)\<rparr>"

record lexer =
  source :: string

definition WHITESPACE :: "char list" where
  "WHITESPACE = [CHR '' '', CHR 0x09]"

definition SIMPLE_SYMBOLS :: "char list" where
  "SIMPLE_SYMBOLS = ''+-*/&=:,()''"

definition isalphanum :: "char \<Rightarrow> bool" where
  "isalphanum c \<longleftrightarrow> isalnum c \<or> c = CHR ''_'' \<or> c = CHR ''$''"

text \<open>The predicates handed to \<^verbatim>\<open>extract_until\<close> see the peeked value, which is the
  end-of-file value at the end of the stream: that value is neither a digit nor
  alphanumeric, and converted to \<^verbatim>\<open>char\<close> it is the byte 255.\<close>

definition is_not_digit :: "char option \<Rightarrow> bool" where
  "is_not_digit p = (case p of None \<Rightarrow> True | Some c \<Rightarrow> \<not> isdigit c)"

definition is_not_alnum :: "char option \<Rightarrow> bool" where
  "is_not_alnum p = (case p of None \<Rightarrow> True | Some c \<Rightarrow> \<not> isalphanum c)"

definition equal_to :: "char \<Rightarrow> char option \<Rightarrow> bool" where
  "equal_to what p = (case p of None \<Rightarrow> what = CHR 0xFF | Some c \<Rightarrow> c = what)"

definition skip_whitespace :: "lexer \<Rightarrow> lexer" where
  "skip_whitespace lx = lx\<lparr>source := dropWhile (\<lambda>c. c \<in> set WHITESPACE) (source lx)\<rparr>"

text \<open>\<^verbatim>\<open>extract_until\<close> reads while the predicate rejects the peeked value.  When the
  predicate rejects the end-of-file value as well, the failed read appends that value once
  and puts the stream into the failed state, which ends the loop.\<close>

fun extract_chars :: "(char option \<Rightarrow> bool) \<Rightarrow> string \<Rightarrow> string \<times> string" where
  "extract_chars pred [] = (if pred None then ([], []) else ([CHR 0xFF], []))"
| "extract_chars pred (c # cs) =
     (if pred (Some c) then ([], c # cs)
      else (case extract_chars pred cs of (result, rest) \<Rightarrow> (c # result, rest)))"

definition extract_until :: "(char option \<Rightarrow> bool) \<Rightarrow> lexer \<Rightarrow> string \<times> lexer" where
  "extract_until pred lx =
     (case extract_chars pred (source lx) of (result, rest) \<Rightarrow> (result, lx\<lparr>source := rest\<rparr>))"

definition ignore_line :: "lexer \<Rightarrow> lexer" where
  "ignore_line lx = lx\<lparr>source := dropWhile (\<lambda>c. c \<noteq> CHR 0x0A) (source lx)\<rparr>"

text \<open>The loop of \<^verbatim>\<open>get_lexeme\<close> that discards consecutive blank lines: each newline is
  read, and the white space after it is skipped.\<close>

function skip_newlines :: "string \<Rightarrow> string" where
  "skip_newlines [] = []"
| "skip_newlines (c # cs) =
     (if c = CHR 0x0A then skip_newlines (dropWhile (\<lambda>c. c \<in> set WHITESPACE) cs) else c # cs)"
  by pat_completeness auto
termination
  by (relation "measure length") (auto intro: le_imp_less_Suc length_dropWhile_le)

text \<open>\<^verbatim>\<open>get_lexeme\<close> stores the peeked value in a \<^verbatim>\<open>char\<close> before it compares it with the
  end-of-file value, so the byte 255 is taken for the end of the input; it is not read.\<close>

definition get_lexeme :: "lexer \<Rightarrow> error + (lexeme option \<times> lexer)" where
  "get_lexeme lx0 =
     (let lx = skip_whitespace lx0 in
      case source lx of
        [] \<Rightarrow> Inr (None, lx)
      | next_char # rest \<Rightarrow>
          if next_char = CHR 0xFF then Inr (None, lx)
          else if isdigit next_char then
            (case extract_until is_not_digit lx of (whole_part, lx1) \<Rightarrow>
               if source lx1 \<noteq> [] \<and> hd (source lx1) = CHR ''.'' then
                 (case extract_until is_not_digit (lx1\<lparr>source := tl (source lx1)\<rparr>) of
                    (decimal_part, lx2) \<Rightarrow>
                      Inr (Some (make_lexeme type_number (whole_part @ ''.'' @ decimal_part)),
                           lx2))
               else Inr (Some (make_lexeme type_number whole_part), lx1))
          else if next_char = CHR 0x22 then
            (case extract_until (equal_to (CHR 0x22)) (lx\<lparr>source := rest\<rparr>) of
               (v, lx1) \<Rightarrow>
                 Inr (Some (make_lexeme type_string v), lx1\<lparr>source := drop 1 (source lx1)\<rparr>))
          else if next_char \<in> set SIMPLE_SYMBOLS then
            Inr (Some (make_lexeme type_symbol [next_char]), lx\<lparr>source := rest\<rparr>)
          else if next_char = CHR ''<'' \<or> next_char = CHR ''>'' then
            (if rest \<noteq> [] \<and> (hd rest = CHR ''>'' \<or> hd rest = CHR ''='') then
               (let second_char = hd rest in
                if second_char = CHR ''='' \<or> (next_char = CHR ''<'' \<and> second_char = CHR ''>'')
                then Inr (Some (make_lexeme type_symbol [next_char, second_char]),
                          lx\<lparr>source := tl rest\<rparr>)
                else Inl (Lexer_error (''Invalid operator: '' @ [next_char, second_char])))
             else Inr (Some (make_lexeme type_symbol [next_char]), lx\<lparr>source := rest\<rparr>))
          else if next_char = CHR 0x0A then
            Inr (Some (make_lexeme type_end []), lx\<lparr>source := skip_newlines (source lx)\<rparr>)
          else if isalpha next_char then
            (case extract_until is_not_alnum lx of (v, lx1) \<Rightarrow>
               Inr (Some (make_lexeme type_word v), lx1))
          else
            Inl (Lexer_error
                  (''Invalid character at input: '' @ [CHR 0x27, next_char, CHR 0x27] @ '' ('' @
                   show_nat (of_char next_char) @ '')'')))"


section \<open>statements.hh: expressions, statements and blocks\<close>

datatype arith_operator =
  operator_plus | operator_minus | operator_times | operator_divides | operator_modulo

datatype relational_operator =
  operator_equals | operator_doesnt_equal | operator_less_than | operator_less_equal
  | operator_greater_than | operator_greater_equal

datatype boolean_operator = operator_and | operator_or | operator_not

text \<open>In a \<open>Boolean_expr\<close> the right side is a null pointer (\<open>None\<close>) exactly for
  \<open>operator_not\<close>.\<close>

datatype numeric_expr =
    Arith_expr numeric_expr numeric_expr arith_operator
  | Variable_expr string
  | Constant_expr number
  | Relational_expr numeric_expr numeric_expr relational_operator
  | Boolean_expr numeric_expr "numeric_expr option" boolean_operator

datatype string_expr =
    String_concat_expr string_expr string_expr
  | String_variable_expr string
  | String_literal_expr string

datatype printable_expr = Numeric numeric_expr | String string_expr

text \<open>
  A block is a list of statements and a jump table from labels to iterators into that list.
  An iterator is modelled by the position it designates.  Copying a block copies the list
  and copies the iterators of the jump table as they are: the iterators of the copy still
  point into the list of the original, and once the original is destroyed they dangle.
  \<open>Dangling\<close> stands for such an iterator.

  The two mutable members \<^verbatim>\<open>final_value\<close> and \<^verbatim>\<open>step\<close> of \<^verbatim>\<open>for_stmt\<close> are the last two
  arguments of \<open>For_stmt\<close>.
\<close>

datatype iterator = Iterator nat | Dangling

datatype statement =
    If_goto_stmt numeric_expr string string
  | If_block_stmt "numeric_expr list" "block list"
  | Block_stmt block_statement
  | Print_stmt "printable_expr list"
  | Input_stmt string
  | Let_stmt string "numeric_expr option" "string_expr option"
  | Goto_stmt string
  | Stop_stmt
  | Exit_stmt string
  | Empty_stmt
and block_statement =
    Do_stmt numeric_expr block
  | For_stmt string numeric_expr numeric_expr numeric_expr block number number
and block =
    Block (statements: "statement list") (jump_table: "string \<rightharpoonup> iterator")

definition copy_block :: "block \<Rightarrow> block" where
  "copy_block b = Block (statements b) (map_option (\<lambda>_. Dangling) \<circ> jump_table b)"

text \<open>The constructors of the statements that own blocks copy the blocks they are given
  (\<^verbatim>\<open>body(block)\<close>, \<^verbatim>\<open>blocks(blocks)\<close>).  The assertions of the other constructors
  (non-null operands, the kind of the identifier in \<^verbatim>\<open>let_stmt\<close> and
  \<^verbatim>\<open>string_variable_expr\<close>) hold at every call the parser makes and are left out.\<close>

definition new_if_block_stmt :: "numeric_expr list \<Rightarrow> block list \<Rightarrow> error + statement" where
  "new_if_block_stmt conditions blocks =
     (if \<not> 1 \<le> length conditions then Inl (Assertion_failed ''conditions.size() >= 1'')
      else if \<not> (length conditions \<le> length blocks \<and> length blocks \<le> length conditions + 1)
      then Inl (Assertion_failed
                 ''blocks.size() >= conditions.size() && blocks.size() <= conditions.size() + 1'')
      else Inr (If_block_stmt conditions (map copy_block blocks)))"

definition new_do_stmt :: "numeric_expr \<Rightarrow> block \<Rightarrow> statement" where
  "new_do_stmt condition body = Block_stmt (Do_stmt condition (copy_block body))"

definition new_for_stmt ::
  "string \<Rightarrow> numeric_expr \<Rightarrow> numeric_expr \<Rightarrow> numeric_expr \<Rightarrow> block \<Rightarrow> statement" where
  "new_for_stmt variable_name initial_value final_value step body =
     Block_stmt
       (For_stmt variable_name initial_value final_value step (copy_block body)
          number_default number_default)"

fun get_name :: "block_statement \<Rightarrow> string" where
  "get_name (Do_stmt condition body) = ''do''"
| "get_name (For_stmt variable_name initial_expression final_expression step_expression body
      final_value step) = ''for''"

definition is_string_identifier :: "string \<Rightarrow> bool" where
  "is_string_identifier identifier \<longleftrightarrow> identifier \<noteq> [] \<and> last identifier = CHR ''$''"


section \<open>parser.cc\<close>

record line =
  label :: string
  line_statement :: "statement option"

text \<open>The parser reads from the lexer and keeps one lexeme of look-ahead in the static
  variable \<^verbatim>\<open>next_symbol\<close>; both make up the state the parsing functions pass on.\<close>

record parser_state =
  lexer :: lexer
  next_symbol :: "lexeme option"

definition BLOCK_TERMINATORS :: "string list" where
  "BLOCK_TERMINATORS = [''end'', ''else'', ''elseif'', ''next'', ''loop'']"

fun to_string :: "e_type \<Rightarrow> string" where
  "to_string type_end = ''end of line''"
| "to_string type_number = ''integral literal''"
| "to_string type_string = ''string literal''"
| "to_string type_symbol = ''operator''"
| "to_string type_word = ''identifier or keyword''"

text \<open>\<^verbatim>\<open>accept(lexer)\<close>: unconditionally accept what is in the stream.\<close>

definition accept_any :: "parser_state \<Rightarrow> error + lexeme option \<times> parser_state" where
  "accept_any st =
     (case get_lexeme (lexer st) of
        Inl e \<Rightarrow> Inl e
      | Inr (l, lx) \<Rightarrow> Inr (next_symbol st, st\<lparr>lexer := lx, next_symbol := l\<rparr>))"

text \<open>\<^verbatim>\<open>accept(lexer, what, value)\<close>: accept the next symbol if it has the given type and,
  when a value is given, that value.\<close>

definition accept ::
  "parser_state \<Rightarrow> e_type \<Rightarrow> string option \<Rightarrow> error + lexeme option \<times> parser_state" where
  "accept st what v =
     (case next_symbol st of
        Some l \<Rightarrow>
          if l_type l = what \<and> (v = None \<or> Some (l_value l) = v) then accept_any st
          else Inr (None, st)
      | None \<Rightarrow> Inr (None, st))"

definition expect ::
  "parser_state \<Rightarrow> e_type \<Rightarrow> string option \<Rightarrow> error + lexeme \<times> parser_state" where
  "expect st type v =
     (case accept st type v of
        Inl e \<Rightarrow> Inl e
      | Inr (Some l, st1) \<Rightarrow> Inr (l, st1)
      | Inr (None, st1) \<Rightarrow>
          (case accept_any st1 of
             Inl e \<Rightarrow> Inl e
           | Inr (got, st2) \<Rightarrow>
               Inl (Syntax_error
                     (''Expected '' @ (case v of Some w \<Rightarrow> w | None \<Rightarrow> to_string type) @
                      '', got '' @
                      (case got of
                         Some l \<Rightarrow> (if v \<noteq> None then l_value l else to_string (l_type l))
                       | None \<Rightarrow> ''end of input'')))))"

subsection \<open>Expressions\<close>

text \<open>The parsing functions call each other recursively; the first argument bounds the
  depth of the calls.\<close>

definition accept_relational_operator ::
  "parser_state \<Rightarrow> error + relational_operator option \<times> parser_state" where
  "accept_relational_operator st =
     (case accept st type_symbol (Some ''='') of Inl e \<Rightarrow> Inl e
      | Inr (Some _, st) \<Rightarrow> Inr (Some operator_equals, st)
      | Inr (None, st) \<Rightarrow>
     (case accept st type_symbol (Some ''<>'') of Inl e \<Rightarrow> Inl e
      | Inr (Some _, st) \<Rightarrow> Inr (Some operator_doesnt_equal, st)
      | Inr (None, st) \<Rightarrow>
     (case accept st type_symbol (Some ''<'') of Inl e \<Rightarrow> Inl e
      | Inr (Some _, st) \<Rightarrow> Inr (Some operator_less_than, st)
      | Inr (None, st) \<Rightarrow>
     (case accept st type_symbol (Some ''<='') of Inl e \<Rightarrow> Inl e
      | Inr (Some _, st) \<Rightarrow> Inr (Some operator_less_equal, st)
      | Inr (None, st) \<Rightarrow>
     (case accept st type_symbol (Some ''>'') of Inl e \<Rightarrow> Inl e
      | Inr (Some _, st) \<Rightarrow> Inr (Some operator_greater_than, st)
      | Inr (None, st) \<Rightarrow>
     (case accept st type_symbol (Some ''>='') of Inl e \<Rightarrow> Inl e
      | Inr (Some _, st) \<Rightarrow> Inr (Some operator_greater_equal, st)
      | Inr (None, st) \<Rightarrow> Inr (None, st)))))))"

fun parse_factor :: "nat \<Rightarrow> parser_state \<Rightarrow> error + numeric_expr \<times> parser_state"
  and parse_term :: "nat \<Rightarrow> parser_state \<Rightarrow> error + numeric_expr \<times> parser_state"
  and parse_integer_expr :: "nat \<Rightarrow> parser_state \<Rightarrow> error + numeric_expr \<times> parser_state"
  and parse_relational_expr :: "nat \<Rightarrow> parser_state \<Rightarrow> error + numeric_expr \<times> parser_state"
  and parse_numeric_expr :: "nat \<Rightarrow> parser_state \<Rightarrow> error + numeric_expr \<times> parser_state"
where
  "parse_factor 0 st = Inl Out_of_fuel"
| "parse_factor (Suc n) st =
     (case accept st type_symbol (Some ''-'') of Inl e \<Rightarrow> Inl e
      | Inr (negated, st) \<Rightarrow>
     (let sign = (if negated \<noteq> None then - 1 else 1 :: int) in
      case accept st type_number None of Inl e \<Rightarrow> Inl e
      | Inr (Some l, st) \<Rightarrow>
          if CHR ''.'' \<notin> set (l_value l)
          then Inr (Constant_expr
                      (number_of_int (word_of_int sign * fst (extract_int (l_value l)))), st)
          else Inr (Constant_expr
                      (number_of_double (real_of_int sign * extract_double (l_value l))), st)
      | Inr (None, st) \<Rightarrow>
     (case accept st type_word None of Inl e \<Rightarrow> Inl e
      | Inr (Some l, st) \<Rightarrow>
          if \<not> is_string_identifier (l_value l) then
            (if 0 < sign then Inr (Variable_expr (l_value l), st)
             else Inr (Arith_expr (Constant_expr (number_of_int (- 1)))
                         (Variable_expr (l_value l)) operator_times, st))
          else Inl (Syntax_error ''String identifier in numeric expression'')
      | Inr (None, st) \<Rightarrow>
     (case accept st type_symbol (Some ''('') of Inl e \<Rightarrow> Inl e
      | Inr (Some l, st) \<Rightarrow>
          (case parse_numeric_expr n st of Inl e \<Rightarrow> Inl e
           | Inr (sub_expression, st) \<Rightarrow>
               (case expect st type_symbol (Some '')'') of Inl e \<Rightarrow> Inl e
                | Inr (_, st) \<Rightarrow> Inr (sub_expression, st)))
      | Inr (None, st) \<Rightarrow>
     (case accept st type_string None of Inl e \<Rightarrow> Inl e
      | Inr (Some l, st) \<Rightarrow> Inl (Syntax_error ''String literal in numeric expression'')
      | Inr (None, st) \<Rightarrow>
     (case accept_any st of Inl e \<Rightarrow> Inl e
      | Inr (_, st) \<Rightarrow>
          Inl (Syntax_error
                ''Expected an integral constant, a variable name, or an opening parenthesis'')))))))"
| "parse_term 0 st = Inl Out_of_fuel"
| "parse_term (Suc n) st =
     (case parse_factor n st of Inl e \<Rightarrow> Inl e
      | Inr (left_side, st) \<Rightarrow>
     (case accept st type_symbol (Some ''*'') of Inl e \<Rightarrow> Inl e
      | Inr (Some _, st) \<Rightarrow>
          (case parse_factor n st of Inl e \<Rightarrow> Inl e
           | Inr (right_side, st) \<Rightarrow> Inr (Arith_expr left_side right_side operator_times, st))
      | Inr (None, st) \<Rightarrow>
     (case accept st type_symbol (Some ''/'') of Inl e \<Rightarrow> Inl e
      | Inr (Some _, st) \<Rightarrow>
          (case parse_factor n st of Inl e \<Rightarrow> Inl e
           | Inr (right_side, st) \<Rightarrow> Inr (Arith_expr left_side right_side operator_divides, st))
      | Inr (None, st) \<Rightarrow>
     (case accept st type_word (Some ''mod'') of Inl e \<Rightarrow> Inl e
      | Inr (Some _, st) \<Rightarrow>
          (case parse_factor n st of Inl e \<Rightarrow> Inl e
           | Inr (right_side, st) \<Rightarrow> Inr (Arith_expr left_side right_side operator_modulo, st))
      | Inr (None, st) \<Rightarrow> Inr (left_side, st)))))"
| "parse_integer_expr 0 st = Inl Out_of_fuel"
| "parse_integer_expr (Suc n) st =
     (case parse_term n st of Inl e \<Rightarrow> Inl e
      | Inr (left_side, st) \<Rightarrow>
     (case accept st type_symbol (Some ''+'') of Inl e \<Rightarrow> Inl e
      | Inr (Some _, st) \<Rightarrow>
          (case parse_integer_expr n st of Inl e \<Rightarrow> Inl e
           | Inr (right_side, st) \<Rightarrow> Inr (Arith_expr left_side right_side operator_plus, st))
      | Inr (None, st) \<Rightarrow>
     (case accept st type_symbol (Some ''-'') of Inl e \<Rightarrow> Inl e
      | Inr (Some _, st) \<Rightarrow>
          (case parse_integer_expr n st of Inl e \<Rightarrow> Inl e
           | Inr (right_side, st) \<Rightarrow> Inr (Arith_expr left_side right_side operator_minus, st))
      | Inr (None, st) \<Rightarrow> Inr (left_side, st))))"
| "parse_relational_expr 0 st = Inl Out_of_fuel"
| "parse_relational_expr (Suc n) st =
     (case parse_integer_expr n st of Inl e \<Rightarrow> Inl e
      | Inr (left_side, st) \<Rightarrow>
     (case accept_relational_operator st of Inl e \<Rightarrow> Inl e
      | Inr (None, st) \<Rightarrow> Inr (left_side, st)
      | Inr (Some op, st) \<Rightarrow>
          (case parse_integer_expr n st of Inl e \<Rightarrow> Inl e
           | Inr (right_side, st) \<Rightarrow> Inr (Relational_expr left_side right_side op, st))))"
| "parse_numeric_expr 0 st = Inl Out_of_fuel"
| "parse_numeric_expr (Suc n) st =
     (case accept st type_word (Some ''not'') of Inl e \<Rightarrow> Inl e
      | Inr (Some _, st) \<Rightarrow>
          (case parse_numeric_expr n st of Inl e \<Rightarrow> Inl e
           | Inr (left_side, st) \<Rightarrow> Inr (Boolean_expr left_side None operator_not, st))
      | Inr (None, st) \<Rightarrow>
     (case parse_relational_expr n st of Inl e \<Rightarrow> Inl e
      | Inr (left_side, st) \<Rightarrow>
     (case accept st type_word (Some ''and'') of Inl e \<Rightarrow> Inl e
      | Inr (Some _, st) \<Rightarrow>
          (case parse_integer_expr n st of Inl e \<Rightarrow> Inl e
           | Inr (right_side, st) \<Rightarrow>
               Inr (Boolean_expr left_side (Some right_side) operator_and, st))
      | Inr (None, st) \<Rightarrow>
     (case accept st type_word (Some ''or'') of Inl e \<Rightarrow> Inl e
      | Inr (Some _, st) \<Rightarrow>
          (case parse_integer_expr n st of Inl e \<Rightarrow> Inl e
           | Inr (right_side, st) \<Rightarrow>
               Inr (Boolean_expr left_side (Some right_side) operator_or, st))
      | Inr (None, st) \<Rightarrow> Inr (left_side, st)))))"


fun parse_string_atom :: "nat \<Rightarrow> parser_state \<Rightarrow> error + string_expr \<times> parser_state"
  and parse_string_expr :: "nat \<Rightarrow> parser_state \<Rightarrow> error + string_expr \<times> parser_state"
where
  "parse_string_atom 0 st = Inl Out_of_fuel"
| "parse_string_atom (Suc n) st =
     (case accept st type_string None of Inl e \<Rightarrow> Inl e
      | Inr (Some l, st) \<Rightarrow> Inr (String_literal_expr (l_value l), st)
      | Inr (None, st) \<Rightarrow>
     (case accept st type_word None of Inl e \<Rightarrow> Inl e
      | Inr (Some l, st) \<Rightarrow>
          if is_string_identifier (l_value l) then Inr (String_variable_expr (l_value l), st)
          else Inl (Syntax_error ''Expected a string identifier'')
      | Inr (None, st) \<Rightarrow>
     (case accept st type_symbol (Some ''('') of Inl e \<Rightarrow> Inl e
      | Inr (Some _, st) \<Rightarrow>
          (case parse_string_expr n st of Inl e \<Rightarrow> Inl e
           | Inr (sub_expression, st) \<Rightarrow>
               (case expect st type_symbol (Some '')'') of Inl e \<Rightarrow> Inl e
                | Inr (_, st) \<Rightarrow> Inr (sub_expression, st)))
      | Inr (None, st) \<Rightarrow>
          Inl (Syntax_error
                ''Expected a string literal, string identifier or opening parenthesis''))))"
| "parse_string_expr 0 st = Inl Out_of_fuel"
| "parse_string_expr (Suc n) st =
     (case parse_string_atom n st of Inl e \<Rightarrow> Inl e
      | Inr (left_side, st) \<Rightarrow>
     (case accept st type_symbol (Some ''&'') of Inl e \<Rightarrow> Inl e
      | Inr (Some _, st) \<Rightarrow>
          (case parse_string_expr n st of Inl e \<Rightarrow> Inl e
           | Inr (right_side, st) \<Rightarrow> Inr (String_concat_expr left_side right_side, st))
      | Inr (None, st) \<Rightarrow> Inr (left_side, st)))"

definition parse_expression :: "nat \<Rightarrow> parser_state \<Rightarrow> error + printable_expr \<times> parser_state"
  where
  "parse_expression n st =
     (if (case next_symbol st of
            Some l \<Rightarrow>
              l_type l = type_string \<or> (l_type l = type_word \<and> is_string_identifier (l_value l))
          | None \<Rightarrow> False)
      then (case parse_string_expr n st of Inl e \<Rightarrow> Inl e | Inr (s, st) \<Rightarrow> Inr (String s, st))
      else (case parse_numeric_expr n st of Inl e \<Rightarrow> Inl e | Inr (x, st) \<Rightarrow> Inr (Numeric x, st)))"

subsection \<open>Statements without a body\<close>

text \<open>The \<^verbatim>\<open>do ... while\<close> loop of \<^verbatim>\<open>parse_print\<close> that reads the expressions separated by
  commas.\<close>

fun parse_print_expressions ::
  "nat \<Rightarrow> printable_expr list \<Rightarrow> parser_state \<Rightarrow> error + printable_expr list \<times> parser_state"
where
  "parse_print_expressions 0 expressions st = Inl Out_of_fuel"
| "parse_print_expressions (Suc n) expressions st =
     (case parse_expression n st of Inl e \<Rightarrow> Inl e
      | Inr (x, st) \<Rightarrow>
     (case accept st type_symbol (Some '','') of Inl e \<Rightarrow> Inl e
      | Inr (Some _, st) \<Rightarrow> parse_print_expressions n (expressions @ [x]) st
      | Inr (None, st) \<Rightarrow> Inr (expressions @ [x], st)))"

definition parse_print :: "nat \<Rightarrow> parser_state \<Rightarrow> error + statement \<times> parser_state" where
  "parse_print n st =
     (if (case next_symbol st of Some l \<Rightarrow> l_type l \<noteq> type_end | None \<Rightarrow> False) then
        (case parse_print_expressions n [] st of Inl e \<Rightarrow> Inl e
         | Inr (expressions, st) \<Rightarrow> Inr (Print_stmt expressions, st))
      else Inr (Print_stmt [], st))"

definition parse_input :: "parser_state \<Rightarrow> error + statement \<times> parser_state" where
  "parse_input st =
     (case expect st type_word None of Inl e \<Rightarrow> Inl e
      | Inr (l, st) \<Rightarrow> Inr (Input_stmt (l_value l), st))"

definition parse_let :: "nat \<Rightarrow> parser_state \<Rightarrow> error + statement \<times> parser_state" where
  "parse_let n st =
     (case expect st type_word None of Inl e \<Rightarrow> Inl e
      | Inr (l, st) \<Rightarrow>
     (let var_name = l_value l in
      case expect st type_symbol (Some ''='') of Inl e \<Rightarrow> Inl e
      | Inr (_, st) \<Rightarrow>
          if \<not> is_string_identifier var_name then
            (case parse_numeric_expr n st of Inl e \<Rightarrow> Inl e
             | Inr (x, st) \<Rightarrow> Inr (Let_stmt var_name (Some x) None, st))
          else
            (case parse_string_expr n st of Inl e \<Rightarrow> Inl e
             | Inr (s, st) \<Rightarrow> Inr (Let_stmt var_name None (Some s), st))))"

definition parse_goto :: "parser_state \<Rightarrow> error + statement \<times> parser_state" where
  "parse_goto st =
     (case accept st type_word None of Inl e \<Rightarrow> Inl e
      | Inr (Some l, st) \<Rightarrow> Inr (Goto_stmt (l_value l), st)
      | Inr (None, st) \<Rightarrow>
     (case accept st type_number None of Inl e \<Rightarrow> Inl e
      | Inr (Some l, st) \<Rightarrow> Inr (Goto_stmt (l_value l), st)
      | Inr (None, st) \<Rightarrow> Inl (Syntax_error ''Expected a label'')))"

definition parse_stop :: "parser_state \<Rightarrow> error + statement \<times> parser_state" where
  "parse_stop st = Inr (Stop_stmt, st)"

definition parse_exit :: "parser_state \<Rightarrow> error + statement \<times> parser_state" where
  "parse_exit st =
     (case expect st type_word None of Inl e \<Rightarrow> Inl e
      | Inr (l, st) \<Rightarrow> Inr (Exit_stmt (l_value l), st))"

subsection \<open>Lines, blocks and the statements that own blocks\<close>

text \<open>The loop of \<^verbatim>\<open>parse_line\<close> that allows newlines between a label and its
  statement.\<close>

fun accept_newlines :: "nat \<Rightarrow> parser_state \<Rightarrow> error + parser_state" where
  "accept_newlines 0 st = Inl Out_of_fuel"
| "accept_newlines (Suc n) st =
     (if (case next_symbol st of Some l \<Rightarrow> l_type l = type_end | None \<Rightarrow> False) then
        (case accept_any st of Inl e \<Rightarrow> Inl e | Inr (_, st) \<Rightarrow> accept_newlines n st)
      else Inr st)"

text \<open>\<^verbatim>\<open>std::map::insert\<close> leaves the map as it is when the key is present.\<close>

definition map_insert :: "('k \<rightharpoonup> 'v) \<Rightarrow> 'k \<Rightarrow> 'v \<Rightarrow> ('k \<rightharpoonup> 'v)" where
  "map_insert m k v = (if m k = None then m(k \<mapsto> v) else m)"

text \<open>The body of the loop of \<^verbatim>\<open>parse_block\<close> for a line that holds a statement: the
  statement is appended, and a label, if there is one, is inserted into the jump table with
  the iterator to the new statement.\<close>

definition add_line :: "block \<Rightarrow> string \<Rightarrow> statement \<Rightarrow> block" where
  "add_line result lbl s =
     Block (statements result @ [s])
       (if lbl \<noteq> []
        then map_insert (jump_table result) lbl (Iterator (length (statements result)))
        else jump_table result)"

text \<open>The part of \<^verbatim>\<open>parse_line\<close> that reads a label written as a word and a colon:
  \<open>symbol\<close> is the word just accepted.  The result is the line and the first word of the
  statement.\<close>

definition parse_word_label ::
  "nat \<Rightarrow> line \<Rightarrow> lexeme \<Rightarrow> parser_state \<Rightarrow> error + (line \<times> lexeme) \<times> parser_state" where
  "parse_word_label n result symbol st =
     (if (case next_symbol st of
            Some l \<Rightarrow> l_type l = type_symbol \<and> l_value l = '':''
          | None \<Rightarrow> False)
      then
        bindE (accept_any st) (\<lambda>(_, st).
        bindE (accept_newlines n st) (\<lambda>st.
        bindE (expect st type_word None) (\<lambda>(l, st).
        Inr ((result\<lparr>label := l_value symbol\<rparr>, l), st))))
      else Inr ((result, symbol), st))"

text \<open>A comment: the rest of the line is discarded and the next lexeme is read.\<close>

definition skip_comment :: "parser_state \<Rightarrow> error + parser_state" where
  "skip_comment st =
     bindE (get_lexeme (ignore_line (lexer st))) (\<lambda>(l, lx).
     Inr (st\<lparr>lexer := lx, next_symbol := l\<rparr>))"

text \<open>The parts of \<^verbatim>\<open>parse_if\<close> that read the label after \<^verbatim>\<open>THEN\<close> (a number or
  a word) and the rest of the single-line form, and the part of \<^verbatim>\<open>parse_for\<close> that reads
  the optional step.\<close>

definition parse_then_label :: "parser_state \<Rightarrow> error + lexeme option \<times> parser_state" where
  "parse_then_label st =
     bindE (accept st type_number None) (\<lambda>(l, st).
     case l of
       Some l \<Rightarrow> Inr (Some l, st)
     | None \<Rightarrow> accept st type_word None)"

definition parse_if_goto ::
  "numeric_expr \<Rightarrow> string \<Rightarrow> parser_state \<Rightarrow> error + statement \<times> parser_state" where
  "parse_if_goto condition then_label st =
     bindE (accept st type_word (Some ''else'')) (\<lambda>(l, st).
     case l of
       None \<Rightarrow> Inr (If_goto_stmt condition then_label [], st)
     | Some _ \<Rightarrow>
         bindE (accept st type_number None) (\<lambda>(l, st).
         case l of
           Some l \<Rightarrow> Inr (If_goto_stmt condition then_label (l_value l), st)
         | None \<Rightarrow>
             bindE (expect st type_word None) (\<lambda>(l, st).
             Inr (If_goto_stmt condition then_label (l_value l), st))))"

definition parse_step :: "nat \<Rightarrow> parser_state \<Rightarrow> error + numeric_expr \<times> parser_state" where
  "parse_step n st =
     bindE (accept st type_word (Some ''step'')) (\<lambda>(l, st).
     case l of
       Some _ \<Rightarrow> parse_numeric_expr n st
     | None \<Rightarrow> Inr (Constant_expr (number_of_int 1), st))"

definition parsers_map_keys :: "string list" where
  "parsers_map_keys =
     [''if'', ''do'', ''for'', ''print'', ''input'', ''let'', ''goto'', ''stop'', ''exit'']"

text \<open>
  \<open>parse_line\<close> takes the line built so far (the jump back to \<^verbatim>\<open>do_parse\<close> after a
  comment keeps a label read before it) and the reference parameter
  \<^verbatim>\<open>terminating_keyword\<close>, whose new value it returns with the line.
  \<open>parse_statement\<close> is the call through the table \<^verbatim>\<open>parsers_map\<close>, for a keyword of that
  table.  \<open>parse_block_loop\<close> is the loop of \<^verbatim>\<open>parse_block\<close>, \<open>parse_if_clauses\<close> the
  \<^verbatim>\<open>do ... while\<close> loop of \<^verbatim>\<open>parse_if\<close>.
\<close>

function (sequential) parse_line ::
    "nat \<Rightarrow> line \<Rightarrow> string \<Rightarrow> parser_state \<Rightarrow> error + (line \<times> string) \<times> parser_state"
  and parse_statement :: "nat \<Rightarrow> string \<Rightarrow> parser_state \<Rightarrow> error + statement \<times> parser_state"
  and parse_block_loop ::
    "nat \<Rightarrow> block \<Rightarrow> string \<Rightarrow> parser_state \<Rightarrow> error + (block \<times> string) \<times> parser_state"
  and parse_if :: "nat \<Rightarrow> parser_state \<Rightarrow> error + statement \<times> parser_state"
  and parse_if_clauses ::
    "nat \<Rightarrow> numeric_expr list \<Rightarrow> block list \<Rightarrow> string \<Rightarrow> parser_state \<Rightarrow>
     error + (numeric_expr list \<times> block list) \<times> parser_state"
  and parse_do :: "nat \<Rightarrow> parser_state \<Rightarrow> error + statement \<times> parser_state"
  and parse_for :: "nat \<Rightarrow> parser_state \<Rightarrow> error + statement \<times> parser_state"
where
  "parse_line 0 result terminating_keyword st = Inl Out_of_fuel"
| "parse_line (Suc n) result terminating_keyword st =
     bindE (accept st type_number None) (\<lambda>(symbol, st).
     let result = (case symbol of Some l \<Rightarrow> result\<lparr>label := l_value l\<rparr> | None \<Rightarrow> result) in
     bindE (accept st type_word None) (\<lambda>(symbol, st).
     case symbol of
       None \<Rightarrow>
         bindE (expect st type_end None) (\<lambda>(_, st).
         Inr ((result\<lparr>line_statement := Some Empty_stmt\<rparr>, terminating_keyword), st))
     | Some symbol \<Rightarrow>
         if l_value symbol \<noteq> ''rem'' then
           bindE (parse_word_label n result symbol st) (\<lambda>((result, symbol), st).
           if l_value symbol \<noteq> ''rem'' then
             if l_value symbol \<in> set parsers_map_keys then
               bindE (parse_statement n (l_value symbol) st) (\<lambda>(s, st).
               bindE (expect st type_end None) (\<lambda>(_, st).
               Inr ((result\<lparr>line_statement := Some s\<rparr>, terminating_keyword), st)))
             else if l_value symbol \<in> set BLOCK_TERMINATORS then
               Inr ((result, l_value symbol), st)
             else Inl (Syntax_error (''Unrecognised keyword: '' @ l_value symbol))
           else
             bindE (skip_comment st) (\<lambda>st. parse_line n result terminating_keyword st))
         else
           bindE (skip_comment st) (\<lambda>st. parse_line n result terminating_keyword st)))"
| "parse_statement 0 keyword st = Inl Out_of_fuel"
| "parse_statement (Suc n) keyword st =
     (if keyword = ''if'' then parse_if n st
      else if keyword = ''do'' then parse_do n st
      else if keyword = ''for'' then parse_for n st
      else if keyword = ''print'' then parse_print n st
      else if keyword = ''input'' then parse_input st
      else if keyword = ''let'' then parse_let n st
      else if keyword = ''goto'' then parse_goto st
      else if keyword = ''stop'' then parse_stop st
      else parse_exit st)"
| "parse_block_loop 0 result terminating_keyword st = Inl Out_of_fuel"
| "parse_block_loop (Suc n) result terminating_keyword st =
     (if next_symbol st \<noteq> None then
        bindE (parse_line n \<lparr>label = [], line_statement = None\<rparr> terminating_keyword st)
          (\<lambda>((l, terminating_keyword), st).
        case line_statement l of
          Some s \<Rightarrow>
            parse_block_loop n (add_line result (label l) s) terminating_keyword st
        | None \<Rightarrow> Inr ((result, terminating_keyword), st))
      else Inr ((result, []), st))"
| "parse_if 0 st = Inl Out_of_fuel"
| "parse_if (Suc n) st =
     bindE (parse_numeric_expr n st) (\<lambda>(condition, st).
     bindE (expect st type_word (Some ''then'')) (\<lambda>(_, st).
     bindE (parse_then_label st) (\<lambda>(l, st).
     case l of
       Some l \<Rightarrow> parse_if_goto condition (l_value l) st
     | None \<Rightarrow>
         if (case next_symbol st of Some l \<Rightarrow> l_type l = type_end | None \<Rightarrow> False) then
           bindE (accept_any st) (\<lambda>(_, st).
           bindE (parse_if_clauses n [condition] [] ''if'' st) (\<lambda>((conditions, blocks), st).
           bindE (expect st type_word (Some ''if'')) (\<lambda>(_, st).
           bindE (new_if_block_stmt conditions blocks) (\<lambda>s.
           Inr (s, st)))))
         else Inl (Syntax_error ''Expected a label or newline after THEN''))))"
| "parse_if_clauses 0 conditions blocks keyword st = Inl Out_of_fuel"
| "parse_if_clauses (Suc n) conditions blocks keyword st =
     bindE (parse_block_loop n (Block [] Map.empty) keyword st) (\<lambda>((clause, keyword), st).
     let blocks = blocks @ [copy_block clause] in
     if keyword = ''elseif'' then
       bindE (parse_numeric_expr n st) (\<lambda>(condition, st).
       bindE (expect st type_word (Some ''then'')) (\<lambda>(_, st).
       bindE (expect st type_end None) (\<lambda>(_, st).
       parse_if_clauses n (conditions @ [condition]) blocks keyword st)))
     else if keyword \<noteq> ''end'' \<and> keyword \<noteq> ''else'' then
       Inl (Syntax_error
             (''Unexpected '' @
              (if keyword \<noteq> [] then ''keyword '' @ keyword else ''end of input'') @
              '', expected ELSE, ELSEIF or END IF''))
     else if keyword \<noteq> ''end'' then parse_if_clauses n conditions blocks keyword st
     else Inr ((conditions, blocks), st))"
| "parse_do 0 st = Inl Out_of_fuel"
| "parse_do (Suc n) st =
     bindE (expect st type_word (Some ''while'')) (\<lambda>(_, st).
     bindE (parse_numeric_expr n st) (\<lambda>(condition, st).
     bindE (parse_block_loop n (Block [] Map.empty) [] st) (\<lambda>((body, terminator), st).
     if terminator \<noteq> ''loop'' then Inl (Syntax_error (''Expected LOOP, got '' @ terminator))
     else Inr (new_do_stmt condition body, st))))"
| "parse_for 0 st = Inl Out_of_fuel"
| "parse_for (Suc n) st =
     bindE (expect st type_word None) (\<lambda>(l, st).
     let variable_name = l_value l in
     bindE (expect st type_symbol (Some ''='')) (\<lambda>(_, st).
     bindE (parse_numeric_expr n st) (\<lambda>(initial_value, st).
     bindE (expect st type_word (Some ''to'')) (\<lambda>(_, st).
     bindE (parse_numeric_expr n st) (\<lambda>(final_value, st).
     bindE (parse_step n st) (\<lambda>(step_value, st).
     bindE (parse_block_loop n (Block [] Map.empty) [] st) (\<lambda>((body, terminator), st).
     if terminator = ''next'' then
       bindE (expect st type_word (Some variable_name)) (\<lambda>(_, st).
       Inr (new_for_stmt variable_name initial_value final_value step_value body, st))
     else
       Inl (Syntax_error (''Expected NEXT '' @ variable_name @ '', got '' @ terminator)))))))))"
  by pat_completeness auto
termination
  by (relation "measure (case_sum (case_sum fst (case_sum fst fst))
        (case_sum (case_sum fst fst) (case_sum fst fst)))") simp_all

definition parse_block ::
  "nat \<Rightarrow> string \<Rightarrow> parser_state \<Rightarrow> error + (block \<times> string) \<times> parser_state" where
  "parse_block n terminating_keyword st =
     parse_block_loop n (Block [] Map.empty) terminating_keyword st"

text \<open>\<^verbatim>\<open>parse\<close>: the block that \<^verbatim>\<open>parse_block\<close> builds is the block returned (the
  returns by value are elided, as GCC and Clang do, so that the iterators of its jump table
  stay valid).\<close>

definition parse :: "nat \<Rightarrow> lexer \<Rightarrow> error + block" where
  "parse n lx0 =
     (case get_lexeme lx0 of Inl e \<Rightarrow> Inl e
      | Inr (l, lx) \<Rightarrow>
     (case parse_block n [] \<lparr>lexer = lx, next_symbol = l\<rparr> of Inl e \<Rightarrow> Inl e
      | Inr ((b, terminator), st) \<Rightarrow>
          if terminator \<noteq> [] \<and> (terminator \<noteq> ''end'' \<or> next_symbol st \<noteq> None) then
            Inl (Syntax_error (''Unexpected '' @ terminator @ '', expected END or end-of-file''))
          else Inr b))"


section \<open>Output of numbers\<close>

text \<open>
  \<^verbatim>\<open>stream << double\<close> with \<^verbatim>\<open>std::showpoint\<close> set and the default precision of 6 is the
  conversion \<^verbatim>\<open>%#g\<close> of \<^verbatim>\<open>printf\<close>: six significant digits, trailing zeroes kept, the
  decimal point always written; fixed notation when the decimal exponent \<open>X\<close> of the
  rounded value satisfies \<open>-4 \<le> X < 6\<close>, scientific notation otherwise.
\<close>

definition decimal_exponent :: "real \<Rightarrow> int" where
  "decimal_exponent a =
     (if 1 \<le> a then int (floorlog 10 (nat \<lfloor>a\<rfloor>)) - 1
      else - int (floorlog 10 (nat (\<lceil>1 / a\<rceil> - 1))))"

definition round_half_even :: "real \<Rightarrow> int" where
  "round_half_even x =
     (let f = \<lfloor>x\<rfloor> in
      if x - of_int f < 1 / 2 then f
      else if 1 / 2 < x - of_int f then f + 1
      else if even f then f else f + 1)"

definition scale10 :: "real \<Rightarrow> int \<Rightarrow> real" where
  "scale10 a k = (if 0 \<le> k then a * 10 ^ nat k else a / 10 ^ nat (- k))"

definition show_double_showpoint :: "real \<Rightarrow> string" where
  "show_double_showpoint v =
     (if v = 0 then ''0.00000''
      else
        (let a = \<bar>v\<bar>;
             minus_sign = (if v < 0 then ''-'' else []);
             X0 = decimal_exponent a;
             m0 = round_half_even (scale10 a (5 - X0));
             m = (if 10 ^ 6 \<le> m0 then m0 div 10 else m0);
             X = (if 10 ^ 6 \<le> m0 then X0 + 1 else X0);
             ds = show_nat (nat m)
         in if X < - 4 \<or> 6 \<le> X then
              minus_sign @ take 1 ds @ ''.'' @ drop 1 ds @ ''e'' @
              (if X < 0 then ''-'' else ''+'') @
              (if \<bar>X\<bar> < 10 then ''0'' else []) @ show_nat (nat \<bar>X\<bar>)
            else if X < 0 then
              minus_sign @ ''0.'' @ replicate (nat (- X - 1)) (CHR ''0'') @ ds
            else
              minus_sign @ take (nat X + 1) ds @ ''.'' @ drop (nat X + 1) ds))"

text \<open>\<^verbatim>\<open>operator<<(std::ostream&, number const&)\<close>.\<close>

definition show_number :: "number \<Rightarrow> string" where
  "show_number num =
     (if is_integral num then show_int (sint (get_integral_value num))
      else show_double_showpoint (get_floating_point_value num))"

section \<open>interpreter.cc\<close>

text \<open>
  An \<open>execution_block\<close> is a frame of the interpreter.  Its member \<^verbatim>\<open>statement\<close> points to
  the \<^verbatim>\<open>block_statement\<close> that entered the block, or is null.  The frame holds the value
  of that statement: the members \<^verbatim>\<open>final_value\<close> and \<^verbatim>\<open>step\<close> of a \<^verbatim>\<open>for_stmt\<close> are written
  by \<^verbatim>\<open>do_execute\<close> only, just before the frame is pushed, and \<^verbatim>\<open>do_execute\<close> of a statement
  cannot run again while a frame of its body is on the stack, so the value in the frame is
  the value of the object for as long as the frame lives.

  The deque \<^verbatim>\<open>blocks\<close> is a list whose head is \<^verbatim>\<open>front()\<close>.
\<close>

record execution_block =
  statement :: "block_statement option"
  block :: block
  current_statement :: iterator
  numeric_variables :: "string \<rightharpoonup> number"
  string_variables :: "string \<rightharpoonup> string"

record interpreter =
  blocks :: "execution_block list"
  should_stop :: bool

text \<open>Standard input (the characters not yet read) and standard output (the characters
  written so far).  They are not part of the interpreter and survive an exception.\<close>

record io =
  cin :: string
  cout :: string

definition enter_block :: "block \<Rightarrow> block_statement option \<Rightarrow> interpreter \<Rightarrow> interpreter" where
  "enter_block b s i =
     i\<lparr>blocks :=
         \<lparr>statement = s, block = b, current_statement = Iterator 0,
          numeric_variables = Map.empty, string_variables = Map.empty\<rparr> # blocks i\<rparr>"

definition new_interpreter :: "block \<Rightarrow> interpreter" where
  "new_interpreter b = enter_block b None \<lparr>blocks = [], should_stop = False\<rparr>"

definition exit_block :: "interpreter \<Rightarrow> interpreter" where
  "exit_block i = (if blocks i \<noteq> [] then i\<lparr>blocks := tl (blocks i)\<rparr> else i)"

text \<open>\<^verbatim>\<open>exit_block(name)\<close> pops frames until it has popped one entered by a statement of
  the given name.\<close>

fun exit_frames :: "string \<Rightarrow> execution_block list \<Rightarrow> error + execution_block list" where
  "exit_frames name [] =
     Inl (Runtime_error (''Cannot EXIT '' @ name @ '': No such block''))"
| "exit_frames name (b # bs) =
     (let popped_name = (case statement b of Some s \<Rightarrow> get_name s | None \<Rightarrow> [])
      in if popped_name = name then Inr bs else exit_frames name bs)"

definition exit_block_named :: "string \<Rightarrow> interpreter \<Rightarrow> error + interpreter" where
  "exit_block_named name i =
     bindE (exit_frames name (blocks i)) (\<lambda>bs. Inr (i\<lparr>blocks := bs\<rparr>))"

definition stop :: "interpreter \<Rightarrow> interpreter" where
  "stop i = i\<lparr>blocks := [], should_stop := True\<rparr>"

fun jump_frames :: "string \<Rightarrow> execution_block list \<Rightarrow> error + execution_block list" where
  "jump_frames lbl [] = Inl (Runtime_error (''Jump to undefined label '' @ lbl))"
| "jump_frames lbl (b # bs) =
     (case jump_table (block b) lbl of
        Some target \<Rightarrow> Inr (b\<lparr>current_statement := target\<rparr> # bs)
      | None \<Rightarrow> jump_frames lbl bs)"

definition jump :: "string \<Rightarrow> interpreter \<Rightarrow> error + interpreter" where
  "jump lbl i = bindE (jump_frames lbl (blocks i)) (\<lambda>bs. Inr (i\<lparr>blocks := bs\<rparr>))"

text \<open>
  A pointer to one of the two variable maps of a frame is the pair of the function that
  reads the member and the function that replaces it.  \<open>find_var\<close> returns the position of
  the frame in which it found the name (counted from the front) and the value found there:
  the map entry its iterator designates.
\<close>

type_synonym 'v variables_member =
  "(execution_block \<Rightarrow> string \<rightharpoonup> 'v) \<times> ((string \<rightharpoonup> 'v) \<Rightarrow> execution_block \<Rightarrow> execution_block)"

definition numeric_variables_member :: "number variables_member" where
  "numeric_variables_member = (numeric_variables, \<lambda>m b. b\<lparr>numeric_variables := m\<rparr>)"

definition string_variables_member :: "string variables_member" where
  "string_variables_member = (string_variables, \<lambda>m b. b\<lparr>string_variables := m\<rparr>)"

fun find_var ::
  "string \<Rightarrow> 'v variables_member \<Rightarrow> execution_block list \<Rightarrow> (nat \<times> 'v) option" where
  "find_var name variables [] = None"
| "find_var name variables (b # bs) =
     (case fst variables b name of
        Some v \<Rightarrow> Some (0, v)
      | None \<Rightarrow> map_option (\<lambda>(k, v). (Suc k, v)) (find_var name variables bs))"

definition set_var ::
  "string \<Rightarrow> 'v variables_member \<Rightarrow> 'v \<Rightarrow> interpreter \<Rightarrow> error + interpreter" where
  "set_var name variables v i =
     (case find_var name variables (blocks i) of
        Some (k, _) \<Rightarrow>
          Inr (i\<lparr>blocks :=
                 (blocks i)[k := snd variables ((fst variables (blocks i ! k))(name \<mapsto> v))
                                  (blocks i ! k)]\<rparr>)
      | None \<Rightarrow>
          (case blocks i of
             [] \<Rightarrow> Inl (Undefined_behaviour ''front() of an empty deque'')
           | b # bs \<Rightarrow>
               Inr (i\<lparr>blocks := snd variables (map_insert (fst variables b) name v) b # bs\<rparr>)))"

definition get_var :: "string \<Rightarrow> 'v variables_member \<Rightarrow> interpreter \<Rightarrow> error + 'v" where
  "get_var name variables i =
     (case find_var name variables (blocks i) of
        Some (_, v) \<Rightarrow> Inr v
      | None \<Rightarrow> Inl (Runtime_error (''Variable '' @ name @ '' undefined'')))"

definition set_var_numeric :: "string \<Rightarrow> number \<Rightarrow> interpreter \<Rightarrow> error + interpreter" where
  "set_var_numeric name v i = set_var name numeric_variables_member v i"

definition set_var_string :: "string \<Rightarrow> string \<Rightarrow> interpreter \<Rightarrow> error + interpreter" where
  "set_var_string name v i = set_var name string_variables_member v i"

definition get_var_numeric :: "string \<Rightarrow> interpreter \<Rightarrow> error + number" where
  "get_var_numeric name i = get_var name numeric_variables_member i"

definition get_var_string :: "string \<Rightarrow> interpreter \<Rightarrow> error + string" where
  "get_var_string name i = get_var name string_variables_member i"

section \<open>statements.cc\<close>

subsection \<open>Expressions\<close>

fun evaluate_string :: "string_expr \<Rightarrow> interpreter \<Rightarrow> error + string" where
  "evaluate_string (String_concat_expr left right) i =
     bindE (evaluate_string left i) (\<lambda>l.
     bindE (evaluate_string right i) (\<lambda>r.
     Inr (l @ r)))"
| "evaluate_string (String_variable_expr var_name) i = get_var_string var_name i"
| "evaluate_string (String_literal_expr v) i = Inr v"

definition apply_arith :: "arith_operator \<Rightarrow> number \<Rightarrow> number \<Rightarrow> error + number" where
  "apply_arith op result rhs =
     (case op of
        operator_plus \<Rightarrow> Inr (plus_assign result rhs)
      | operator_minus \<Rightarrow> Inr (minus_assign result rhs)
      | operator_times \<Rightarrow> Inr (times_assign result rhs)
      | operator_modulo \<Rightarrow> mod_assign result rhs
      | operator_divides \<Rightarrow> div_assign result rhs)"

definition apply_relational :: "relational_operator \<Rightarrow> number \<Rightarrow> number \<Rightarrow> bool" where
  "apply_relational op left right =
     (case op of
        operator_equals \<Rightarrow> number_eq left right
      | operator_doesnt_equal \<Rightarrow> number_neq left right
      | operator_less_than \<Rightarrow> number_less left right
      | operator_less_equal \<Rightarrow> number_less_eq left right
      | operator_greater_than \<Rightarrow> number_greater left right
      | operator_greater_equal \<Rightarrow> number_greater_eq left right)"

text \<open>\<^verbatim>\<open>&&\<close> and \<^verbatim>\<open>||\<close> evaluate their right operand only when the left one does not decide
  the result.\<close>

fun evaluate :: "numeric_expr \<Rightarrow> interpreter \<Rightarrow> error + number" where
  "evaluate (Arith_expr left_side right_side op) i =
     bindE (evaluate left_side i) (\<lambda>result.
     bindE (evaluate right_side i) (\<lambda>rhs.
     apply_arith op result rhs))"
| "evaluate (Variable_expr name) i = get_var_numeric name i"
| "evaluate (Constant_expr v) i = Inr v"
| "evaluate (Relational_expr left_side right_side op) i =
     bindE (evaluate left_side i) (\<lambda>left.
     bindE (evaluate right_side i) (\<lambda>right.
     Inr (number_of_bool (apply_relational op left right))))"
| "evaluate (Boolean_expr left_side right_side op) i =
     bindE (evaluate left_side i) (\<lambda>left.
     case op of
       operator_not \<Rightarrow> Inr (number_of_bool (\<not> is_true left))
     | operator_and \<Rightarrow>
         if is_true left then
           (case right_side of
              Some r \<Rightarrow> bindE (evaluate r i) (\<lambda>right. Inr (number_of_bool (is_true right)))
            | None \<Rightarrow> Inl (Undefined_behaviour ''null pointer''))
         else Inr (number_of_bool False)
     | operator_or \<Rightarrow>
         if is_true left then Inr (number_of_bool True)
         else
           (case right_side of
              Some r \<Rightarrow> bindE (evaluate r i) (\<lambda>right. Inr (number_of_bool (is_true right)))
            | None \<Rightarrow> Inl (Undefined_behaviour ''null pointer'')))"

fun get_representation :: "printable_expr \<Rightarrow> interpreter \<Rightarrow> error + string" where
  "get_representation (Numeric x) i = bindE (evaluate x i) (\<lambda>v. Inr (show_number v))"
| "get_representation (String s) i = evaluate_string s i"

subsection \<open>Statements\<close>

text \<open>The loop of \<^verbatim>\<open>if_block_stmt::do_execute\<close> over the conditions, from index \<open>k\<close> on.\<close>

fun if_block_select ::
  "numeric_expr list \<Rightarrow> block list \<Rightarrow> nat \<Rightarrow> interpreter \<Rightarrow> error + interpreter" where
  "if_block_select [] clauses k i =
     (if length clauses = k + 1 then Inr (enter_block (clauses ! (length clauses - 1)) None i)
      else Inr i)"
| "if_block_select (c # cs) clauses k i =
     bindE (evaluate c i) (\<lambda>v.
     if is_true v then
       (if k < length clauses then Inr (enter_block (clauses ! k) None i)
        else Inl (Undefined_behaviour ''index out of range''))
     else if_block_select cs clauses (Suc k) i)"

text \<open>The condition under which \<^verbatim>\<open>for_stmt\<close> enters its body, for the value of the loop
  variable, the step and the final value.\<close>

definition for_continues :: "number \<Rightarrow> number \<Rightarrow> number \<Rightarrow> bool" where
  "for_continues iterator_value step final_value \<longleftrightarrow>
     (number_greater step (number_of_int 0) \<and> number_less_eq iterator_value final_value) \<or>
     (number_less step (number_of_int 0) \<and> number_greater_eq iterator_value final_value)"

fun do_iterate :: "block_statement \<Rightarrow> interpreter \<Rightarrow> error + interpreter" where
  "do_iterate (Do_stmt condition body) i =
     bindE (evaluate condition i) (\<lambda>c.
     if is_true c then Inr (enter_block body (Some (Do_stmt condition body)) i) else Inr i)"
| "do_iterate (For_stmt variable_name initial_expression final_expression step_expression body
      final_value step) i =
     bindE (get_var_numeric variable_name i) (\<lambda>v.
     let iterator_value = plus_assign v step in
     bindE (set_var_numeric variable_name iterator_value i) (\<lambda>i.
     if for_continues iterator_value step final_value
     then Inr (enter_block body
                 (Some (For_stmt variable_name initial_expression final_expression
                          step_expression body final_value step)) i)
     else Inr i))"

fun do_execute_block_statement :: "block_statement \<Rightarrow> interpreter \<Rightarrow> error + interpreter" where
  "do_execute_block_statement (Do_stmt condition body) i = do_iterate (Do_stmt condition body) i"
| "do_execute_block_statement (For_stmt variable_name initial_expression final_expression
      step_expression body final_value0 step0) i =
     bindE (evaluate initial_expression i) (\<lambda>v.
     bindE (set_var_numeric variable_name v i) (\<lambda>i.
     bindE (evaluate step_expression i) (\<lambda>step.
     bindE (evaluate final_expression i) (\<lambda>final_value.
     bindE (if number_greater step (number_of_int 0) \<or> number_less step (number_of_int 0)
            then get_var_numeric variable_name i else Inr number_default) (\<lambda>iterator_value.
     if for_continues iterator_value step final_value
     then Inr (enter_block body
                 (Some (For_stmt variable_name initial_expression final_expression
                          step_expression body final_value step)) i)
     else Inr i)))))"

text \<open>The loop of \<^verbatim>\<open>print_stmt::do_execute\<close>: what was written before an expression
  throws stays written.\<close>

fun print_expressions ::
  "printable_expr list \<Rightarrow> interpreter \<Rightarrow> io \<Rightarrow> (error + unit) \<times> io" where
  "print_expressions [] i w = (Inr (), w)"
| "print_expressions (x # xs) i w =
     (case get_representation x i of
        Inl e \<Rightarrow> (Inl e, w)
      | Inr s \<Rightarrow> print_expressions xs i (w\<lparr>cout := cout w @ s\<rparr>))"

fun execute :: "statement \<Rightarrow> interpreter \<Rightarrow> io \<Rightarrow> (error + interpreter) \<times> io" where
  "execute (If_goto_stmt condition then_label else_label) i w =
     (bindE (evaluate condition i) (\<lambda>c.
      if is_true c then jump then_label i
      else if else_label \<noteq> [] then jump else_label i
      else Inr i), w)"
| "execute (If_block_stmt conditions clauses) i w = (if_block_select conditions clauses 0 i, w)"
| "execute (Block_stmt s) i w = (do_execute_block_statement s i, w)"
| "execute (Print_stmt expressions) i w =
     (case print_expressions expressions i w of
        (Inl e, w) \<Rightarrow> (Inl e, w)
      | (Inr _, w) \<Rightarrow> (Inr i, w\<lparr>cout := cout w @ [CHR 0x0A]\<rparr>))"
| "execute (Input_stmt var_name) i w =
     (let w = w\<lparr>cout := cout w @ ''? ''\<rparr>;
          input_line = fst (getline (cin w));
          w = w\<lparr>cin := snd (getline (cin w))\<rparr>
      in case extract_int input_line of
           (input, True) \<Rightarrow> (set_var_numeric var_name (number_of_int input) i, w)
         | (input, False) \<Rightarrow>
             (Inl (Runtime_error ''User input error: expected an integer''), w))"
| "execute (Let_stmt var_name value_numeric value_string) i w =
     (case value_numeric of
        Some x \<Rightarrow> (bindE (evaluate x i) (\<lambda>v. set_var_numeric var_name v i), w)
      | None \<Rightarrow>
          (case value_string of
             Some s \<Rightarrow> (bindE (evaluate_string s i) (\<lambda>v. set_var_string var_name v i), w)
           | None \<Rightarrow> (Inl (Undefined_behaviour ''null pointer''), w)))"
| "execute (Goto_stmt lbl) i w = (jump lbl i, w)"
| "execute Stop_stmt i w = (Inr (stop i), w)"
| "execute (Exit_stmt what) i w = (exit_block_named what i, w)"
| "execute Empty_stmt i w = (Inr i, w)"

subsection \<open>The main loop\<close>

text \<open>
  \<open>run_inner\<close> is the inner \<^verbatim>\<open>while\<close> loop of \<^verbatim>\<open>interpreter::run\<close>, \<open>run_loop\<close> the outer
  one; the first argument bounds the number of iterations.  The condition of the inner loop
  reads \<^verbatim>\<open>blocks.front()\<close> before it reads \<^verbatim>\<open>should_stop\<close>, and the statement after the
  inner loop reads \<^verbatim>\<open>blocks.front()\<close> again.
\<close>

fun run_inner :: "nat \<Rightarrow> interpreter \<Rightarrow> io \<Rightarrow> (error + interpreter) \<times> io" where
  "run_inner 0 i w = (Inl Out_of_fuel, w)"
| "run_inner (Suc n) i w =
     (case blocks i of
        [] \<Rightarrow> (Inl (Undefined_behaviour ''front() of an empty deque''), w)
      | current_block # rest \<Rightarrow>
          (case current_statement current_block of
             Dangling \<Rightarrow> (Inl (Undefined_behaviour ''dangling iterator''), w)
           | Iterator k \<Rightarrow>
               if k \<noteq> length (statements (block current_block)) \<and> \<not> should_stop i then
                 if k < length (statements (block current_block)) then
                   (case execute (statements (block current_block) ! k)
                           (i\<lparr>blocks := current_block\<lparr>current_statement := Iterator (Suc k)\<rparr> # rest\<rparr>)
                           w of
                      (Inl e, w) \<Rightarrow> (Inl e, w)
                    | (Inr i, w) \<Rightarrow> run_inner n i w)
                 else (Inl (Undefined_behaviour ''iterator past the end''), w)
               else (Inr i, w)))"

fun run_loop :: "nat \<Rightarrow> interpreter \<Rightarrow> io \<Rightarrow> (error + interpreter) \<times> io" where
  "run_loop 0 i w = (Inl Out_of_fuel, w)"
| "run_loop (Suc n) i w =
     (if blocks i \<noteq> [] \<and> \<not> should_stop i then
        (case run_inner n i w of
           (Inl e, w) \<Rightarrow> (Inl e, w)
         | (Inr i, w) \<Rightarrow>
             (case blocks i of
                [] \<Rightarrow> (Inl (Undefined_behaviour ''front() of an empty deque''), w)
              | b # _ \<Rightarrow>
                  (case statement b of
                     Some s \<Rightarrow>
                       (case do_iterate s (exit_block i) of
                          Inl e \<Rightarrow> (Inl e, w)
                        | Inr i \<Rightarrow> run_loop n i w)
                   | None \<Rightarrow> run_loop n (exit_block i) w)))
      else (Inr i, w))"

definition run :: "nat \<Rightarrow> interpreter \<Rightarrow> io \<Rightarrow> (error + interpreter) \<times> io" where
  "run n i w = run_loop n (i\<lparr>should_stop := False\<rparr>) w"

section \<open>main.cc\<close>

text \<open>The program text is lexed, parsed and run; an exception ends the program.  The result
  is the exception, if any, and the final state of the standard streams.\<close>

definition basic_main :: "nat \<Rightarrow> string \<Rightarrow> string \<Rightarrow> error option \<times> io" where
  "basic_main n program_text input =
     (case parse n \<lparr>source = program_text\<rparr> of
        Inl e \<Rightarrow> (Some e, \<lparr>cin = input, cout = []\<rparr>)
      | Inr program \<Rightarrow>
          (case run n (new_interpreter program) \<lparr>cin = input, cout = []\<rparr> of
             (Inl e, w) \<Rightarrow> (Some e, w)
           | (Inr _, w) \<Rightarrow> (None, w)))"


section \<open>Notions used in the statements\<close>

text \<open>The innermost frame that holds a name: position \<open>k\<close> from the front, with no frame
  in front of it holding the name.\<close>

definition innermost ::
  "(execution_block \<Rightarrow> string \<rightharpoonup> 'v) \<Rightarrow> execution_block list \<Rightarrow> string \<Rightarrow> nat \<Rightarrow> 'v \<Rightarrow> bool" where
  "innermost vars bs name k v \<longleftrightarrow>
     k < length bs \<and> vars (bs ! k) name = Some v \<and> (\<forall>j<k. vars (bs ! j) name = None)"

definition unbound ::
  "(execution_block \<Rightarrow> string \<rightharpoonup> 'v) \<Rightarrow> execution_block list \<Rightarrow> string \<Rightarrow> bool" where
  "unbound vars bs name \<longleftrightarrow> (\<forall>k<length bs. vars (bs ! k) name = None)"




text \<open>A line of input that is an integer: an optional sign and at least one decimal digit,
  and nothing else.\<close>

definition line_is_integer :: "string \<Rightarrow> bool" where
  "line_is_integer s \<longleftrightarrow>
     (let body = (if s \<noteq> [] \<and> (hd s = CHR ''-'' \<or> hd s = CHR ''+'') then tl s else s)
      in body \<noteq> [] \<and> list_all isdigit body)"

text \<open>The integer that a line of input starts with, after leading white space: an
  optional sign and the longest run of decimal digits, if there is at least one digit.\<close>

definition integer_prefix :: "string \<Rightarrow> int option" where
  "integer_prefix s =
     (let t = dropWhile isspace s;
          u = (if t \<noteq> [] \<and> (hd t = CHR ''-'' \<or> hd t = CHR ''+'') then tl t else t);
          ds = takeWhile isdigit u
      in if ds = [] then None
         else if t \<noteq> [] \<and> hd t = CHR ''-'' then Some (- int (digits_value ds))
         else Some (int (digits_value ds)))"

definition fits_int :: "int \<Rightarrow> bool" where
  "fits_int v \<longleftrightarrow> - (2 ^ 31) \<le> v \<and> v \<le> 2 ^ 31 - 1"

text \<open>The effect of INPUT in terms of the line read.\<close>

definition input_result :: "string \<Rightarrow> string \<Rightarrow> interpreter \<Rightarrow> error + interpreter" where
  "input_result var_name input_line i =
     (case integer_prefix input_line of
        Some v \<Rightarrow>
          if fits_int v then set_var_numeric var_name (number_of_int (word_of_int v)) i
          else Inl (Runtime_error ''User input error: expected an integer'')
      | None \<Rightarrow> Inl (Runtime_error ''User input error: expected an integer''))"

text \<open>The rest of the program text holds no lexeme: after blanks and tabs comes the end
  of the text, or the byte 255, which the lexer takes for the end of the input.\<close>

definition no_more_input :: "string \<Rightarrow> bool" where
  "no_more_input s \<longleftrightarrow>
     (case dropWhile (\<lambda>c. c \<in> set WHITESPACE) s of [] \<Rightarrow> True | c # cs \<Rightarrow> c = CHR 0xFF)"

text \<open>The word \<open>w\<close> was the look-ahead lexeme of the parser state \<open>st0\<close>, and accepting it
  gave the state \<open>st\<close>.\<close>

definition accepted_word :: "parser_state \<Rightarrow> lexeme \<Rightarrow> parser_state \<Rightarrow> bool" where
  "accepted_word st0 w st \<longleftrightarrow>
     next_symbol st0 = Some w \<and> l_type w = type_word \<and> accept_any st0 = Inr (Some w, st)"

text \<open>The text of a numeric literal: a non-empty run of decimal digits, optionally followed
  by a decimal point and a run of decimal digits.\<close>

definition number_text :: "string \<Rightarrow> bool" where
  "number_text a \<longleftrightarrow>
     takeWhile isdigit a \<noteq> [] \<and>
     (dropWhile isdigit a = [] \<or>
      (hd (dropWhile isdigit a) = CHR ''.'' \<and> list_all isdigit (tl (dropWhile isdigit a))))"

text \<open>The constant that \<^verbatim>\<open>parse_factor\<close> builds from an unsigned numeric literal.\<close>

definition constant_of_literal :: "string \<Rightarrow> number" where
  "constant_of_literal a =
     (if CHR ''.'' \<notin> set (l_value (make_lexeme type_number a))
      then number_of_int (fst (extract_int (l_value (make_lexeme type_number a))))
      else number_of_double (extract_double (l_value (make_lexeme type_number a))))"

text \<open>The numeric expression that the parser reads at the start of a text: the look-ahead
  lexeme is read first, as \<^verbatim>\<open>parse\<close> does, and \<^verbatim>\<open>parse_numeric_expr\<close> is called.\<close>

definition parse_expression_text :: "nat \<Rightarrow> string \<Rightarrow> error + numeric_expr" where
  "parse_expression_text n s =
     bindE (get_lexeme \<lparr>source = s\<rparr>) (\<lambda>(l, lx).
     bindE (parse_numeric_expr n \<lparr>lexer = lx, next_symbol = l\<rparr>) (\<lambda>(e, st).
     Inr e))"

text \<open>The number of passes through the body of a FOR loop with the initial value \<open>i\<close>, the
  final value \<open>f\<close> and the positive step \<open>s\<close>, as the specification gives it.\<close>

definition for_count :: "int \<Rightarrow> int \<Rightarrow> int \<Rightarrow> nat" where
  "for_count i f s = (if i \<le> f then nat ((f - i) div s) + 1 else 0)"




text \<open>The body of the loop of the third end-to-end scenario of the specification, as the
  parser builds it (the empty statement is the rest of the line \<^verbatim>\<open>FOR I = 1 TO 3\<close>), and
  its effect: the value of \<open>I\<close> and a newline are written.\<close>

definition scenario3_body :: block where
  "scenario3_body = Block [Empty_stmt, Print_stmt [Numeric (Variable_expr ''i'')]] Map.empty"


text \<open>The program of the second end-to-end scenario of the specification.\<close>

definition scenario2 :: string where
  "scenario2 = ''PRINT 1+2\<newline>PRINT 1/2\<newline>PRINT 4/2\<newline>''"


section \<open>Properties of the number abstraction\<close>






lemma truncate_double_eq_0_iff: "truncate_double v = 0 \<longleftrightarrow> \<bar>v\<bar> < 1"
  unfolding truncate_double_def by (auto; linarith)










text \<open>
  Claim C9.  The modulo operation throws its runtime error if and only if at least one
  operand is not integral.  The guard does not look at the divisor: for two integral
  operands with divisor zero no runtime error is thrown and the built-in remainder by zero
  is evaluated, which C++ leaves undefined.
\<close>

theorem modulo_guard:
  "((\<exists>msg. mod_assign a b = Inl (Runtime_error msg)) \<longleftrightarrow> \<not> (is_integral a \<and> is_integral b)) \<and>
   (is_integral a \<and> is_integral b \<and> get_integral_value b = 0 \<longrightarrow>
      mod_assign a b = Inl (Undefined_behaviour ''integer remainder by zero''))"
  by (auto simp: mod_assign_def Let_def)

theorem modulo_guard_witness:
  "is_integral (number_of_int 7) \<and> is_integral (number_of_int 0) \<and>
   get_integral_value (number_of_int 0) = 0 \<and>
   mod_assign (number_of_int 7) (number_of_int 0) =
     Inl (Undefined_behaviour ''integer remainder by zero'')"
proof -
  have h: "is_integral (number_of_int 7) \<and> is_integral (number_of_int 0) \<and>
      get_integral_value (number_of_int 0) = 0"
    by (simp add: is_integral_def get_integral_value_def number_of_int_def)
  from modulo_guard [of "number_of_int 7" "number_of_int 0"] h show ?thesis
    by blast
qed

section \<open>Properties of the variable store\<close>

lemma innermost_Cons_None:
  "vars b name = None \<Longrightarrow>
   innermost vars (b # bs) name k v \<longleftrightarrow> (\<exists>k'. k = Suc k' \<and> innermost vars bs name k' v)"
  by (cases k) (auto simp: innermost_def less_Suc_eq_0_disj nth_Cons')

lemma innermost_Cons_Some:
  "vars b name = Some u \<Longrightarrow> innermost vars (b # bs) name k v \<longleftrightarrow> k = 0 \<and> v = u"
  by (cases k) (auto simp: innermost_def)

lemma find_var_Some_iff:
  "find_var name vm bs = Some (k, v) \<longleftrightarrow> innermost (fst vm) bs name k v"
proof (induction bs arbitrary: k v)
  case Nil
  then show ?case by (simp add: innermost_def)
next
  case (Cons b bs)
  show ?case
  proof (cases "fst vm b name")
    case None
    show ?thesis
    proof (cases "find_var name vm bs")
      case None': None
      with Cons.IH have "\<And>k' v'. \<not> innermost (fst vm) bs name k' v'"
        by simp
      with None None' show ?thesis
        by (simp add: innermost_Cons_None)
    next
      case (Some r)
      obtain k0 v0 where r: "r = (k0, v0)" by (cases r)
      have "\<And>k' v'. innermost (fst vm) bs name k' v' \<longleftrightarrow> k' = k0 \<and> v' = v0"
        unfolding Cons.IH [symmetric] Some r by auto
      with None Some r show ?thesis
        by (auto simp: innermost_Cons_None)
    qed
  next
    case (Some u)
    then show ?thesis
      by (auto simp: innermost_Cons_Some)
  qed
qed

lemma find_var_None_iff:
  "find_var name vm bs = None \<longleftrightarrow> unbound (fst vm) bs name"
proof (induction bs)
  case Nil
  then show ?case by (simp add: unbound_def)
next
  case (Cons b bs)
  then show ?case
    by (auto simp: unbound_def less_Suc_eq_0_disj split: option.splits)
qed


lemma innermost_unique:
  "innermost vars bs name k v \<Longrightarrow> innermost vars bs name k' v' \<Longrightarrow> k' = k \<and> v' = v"
  unfolding innermost_def by (metis linorder_neqE_nat option.distinct(1) option.inject)

lemma unbound_not_innermost: "unbound vars bs name \<Longrightarrow> \<not> innermost vars bs name k v"
  by (auto simp: unbound_def innermost_def)

lemma set_var_found:
  assumes "innermost (fst vm) (blocks i) name k v0"
  shows "set_var name vm v i =
    Inr (i\<lparr>blocks := (blocks i)[k := snd vm ((fst vm (blocks i ! k))(name \<mapsto> v)) (blocks i ! k)]\<rparr>)"
  using assms by (simp add: set_var_def find_var_Some_iff [symmetric])

lemma set_var_new:
  assumes "unbound (fst vm) (blocks i) name" and "blocks i = b # bs"
  shows "set_var name vm v i = Inr (i\<lparr>blocks := snd vm ((fst vm b)(name \<mapsto> v)) b # bs\<rparr>)"
proof -
  from assms have "fst vm b name = None"
    by (auto simp: unbound_def)
  with assms show ?thesis
    by (simp add: set_var_def find_var_None_iff [symmetric] map_insert_def)
qed

lemma get_var_found:
  "innermost (fst vm) (blocks i) name k v0 \<Longrightarrow> get_var name vm i = Inr v0"
  by (simp add: get_var_def find_var_Some_iff [symmetric])

lemma get_var_undefined_iff:
  "get_var name vm i = Inl (Runtime_error (''Variable '' @ name @ '' undefined'')) \<longleftrightarrow>
   unbound (fst vm) (blocks i) name"
  by (auto simp: get_var_def find_var_None_iff [symmetric] split: option.splits)

lemma get_var_error_iff:
  "(\<exists>e. get_var name vm i = Inl e) \<longleftrightarrow> unbound (fst vm) (blocks i) name"
  by (auto simp: get_var_def find_var_None_iff [symmetric] split: option.splits)

text \<open>The maps of the other kind are not touched.\<close>

lemma set_var_blocks_cases:
  assumes "set_var name vm v i = Inr i'"
  obtains k m where "k < length (blocks i)" "blocks i' = (blocks i)[k := snd vm m (blocks i ! k)]"
proof (cases "find_var name vm (blocks i)")
  case None
  with assms obtain b bs where bs: "blocks i = b # bs"
    and i': "i' = i\<lparr>blocks := snd vm (map_insert (fst vm b) name v) b # bs\<rparr>"
    by (auto simp: set_var_def split: list.splits)
  show ?thesis
    by (rule that [of 0 "map_insert (fst vm b) name v"]) (simp_all add: bs i')
next
  case (Some r)
  obtain k u where r: "r = (k, u)" by (cases r)
  from Some r have "innermost (fst vm) (blocks i) name k u"
    by (simp add: find_var_Some_iff)
  then have k: "k < length (blocks i)"
    by (simp add: innermost_def)
  from assms Some r
  have "blocks i' = (blocks i)[k := snd vm ((fst vm (blocks i ! k))(name \<mapsto> v)) (blocks i ! k)]"
    by (auto simp: set_var_def)
  with k show ?thesis
    by (rule that)
qed

lemma set_var_numeric_string_variables:
  assumes "set_var_numeric name v i = Inr i'"
  shows "map string_variables (blocks i') = map string_variables (blocks i)"
proof -
  from assms obtain k m where "k < length (blocks i)"
    and "blocks i' = (blocks i)[k := snd numeric_variables_member m (blocks i ! k)]"
    unfolding set_var_numeric_def by (rule set_var_blocks_cases)
  then show ?thesis
    by (simp add: numeric_variables_member_def map_update list_update_same_conv)
qed

lemma set_var_string_numeric_variables:
  assumes "set_var_string name v i = Inr i'"
  shows "map numeric_variables (blocks i') = map numeric_variables (blocks i)"
proof -
  from assms obtain k m where "k < length (blocks i)"
    and "blocks i' = (blocks i)[k := snd string_variables_member m (blocks i ! k)]"
    unfolding set_var_string_def by (rule set_var_blocks_cases)
  then show ?thesis
    by (simp add: string_variables_member_def map_update list_update_same_conv)
qed

lemma find_var_cong_maps:
  "map (fst vm) bs = map (fst vm) bs' \<Longrightarrow> find_var name vm bs = find_var name vm bs'"
proof (induction bs arbitrary: bs')
  case Nil
  then show ?case by simp
next
  case (Cons b bs)
  from Cons.prems obtain b' bs'' where bs': "bs' = b' # bs''" and b: "fst vm b = fst vm b'"
    and rest: "map (fst vm) bs = map (fst vm) bs''"
    by (cases bs') auto
  from Cons.IH [OF rest] b show ?case
    by (simp add: bs' split: option.split)
qed

lemma get_var_string_after_set_var_numeric:
  assumes "set_var_numeric name v i = Inr i'"
  shows "get_var_string name' i' = get_var_string name' i"
proof -
  have "map (fst string_variables_member) (blocks i') = map (fst string_variables_member) (blocks i)"
    using set_var_numeric_string_variables [OF assms] by (simp add: string_variables_member_def)
  then have "find_var name' string_variables_member (blocks i') =
      find_var name' string_variables_member (blocks i)"
    by (rule find_var_cong_maps)
  then show ?thesis
    by (simp add: get_var_string_def get_var_def)
qed

lemma get_var_numeric_after_set_var_string:
  assumes "set_var_string name v i = Inr i'"
  shows "get_var_numeric name' i' = get_var_numeric name' i"
proof -
  have "map (fst numeric_variables_member) (blocks i') = map (fst numeric_variables_member) (blocks i)"
    using set_var_string_numeric_variables [OF assms] by (simp add: numeric_variables_member_def)
  then have "find_var name' numeric_variables_member (blocks i') =
      find_var name' numeric_variables_member (blocks i)"
    by (rule find_var_cong_maps)
  then show ?thesis
    by (simp add: get_var_numeric_def get_var_def)
qed


lemma innermost_or_unbound:
  "unbound vars bs name \<or> (\<exists>k v. innermost vars bs name k v)"
proof (cases "unbound vars bs name")
  case True
  then show ?thesis by simp
next
  case False
  define k where "k = (LEAST k. k < length bs \<and> vars (bs ! k) name \<noteq> None)"
  from False have ex: "\<exists>k. k < length bs \<and> vars (bs ! k) name \<noteq> None"
    by (auto simp: unbound_def)
  from LeastI_ex [OF ex] have k: "k < length bs" "vars (bs ! k) name \<noteq> None"
    by (simp_all add: k_def)
  have "\<forall>j<k. vars (bs ! j) name = None"
  proof (intro allI impI)
    fix j assume "j < k"
    with not_less_Least [of j "\<lambda>k. k < length bs \<and> vars (bs ! k) name \<noteq> None"] k
    show "vars (bs ! j) name = None"
      by (auto simp: k_def)
  qed
  with k show ?thesis
    by (auto simp: innermost_def)
qed

text \<open>
  Claim C4.  For every frame stack: assigning a variable overwrites the binding in the
  innermost frame whose map holds the name, and inserts the name into the front (top) frame
  when no frame holds it; reading a variable returns the value of the innermost frame that
  holds the name, and throws the runtime error "Variable <name> undefined" exactly when no
  frame holds it.  The numeric and the string variables live in separate maps: an
  assignment of one kind changes the value read for no variable of the other kind.
\<close>

theorem variable_scoping:
  "(unbound numeric_variables (blocks i) name \<or> (\<exists>k v0. innermost numeric_variables (blocks i) name k v0)) \<and>
   (innermost numeric_variables (blocks i) name k v0 \<longrightarrow>
      set_var_numeric name v i =
        Inr (i\<lparr>blocks := (blocks i)[k := (blocks i ! k)
               \<lparr>numeric_variables := (numeric_variables (blocks i ! k))(name \<mapsto> v)\<rparr>]\<rparr>) \<and>
      get_var_numeric name i = Inr v0) \<and>
   (unbound numeric_variables (blocks i) name \<and> blocks i = b # bs \<longrightarrow>
      set_var_numeric name v i =
        Inr (i\<lparr>blocks := b\<lparr>numeric_variables := (numeric_variables b)(name \<mapsto> v)\<rparr> # bs\<rparr>)) \<and>
   (get_var_numeric name i = Inl (Runtime_error (''Variable '' @ name @ '' undefined'')) \<longleftrightarrow>
      unbound numeric_variables (blocks i) name) \<and>
   (innermost string_variables (blocks i) name k s0 \<longrightarrow>
      set_var_string name s i =
        Inr (i\<lparr>blocks := (blocks i)[k := (blocks i ! k)
               \<lparr>string_variables := (string_variables (blocks i ! k))(name \<mapsto> s)\<rparr>]\<rparr>) \<and>
      get_var_string name i = Inr s0) \<and>
   (unbound string_variables (blocks i) name \<and> blocks i = b # bs \<longrightarrow>
      set_var_string name s i =
        Inr (i\<lparr>blocks := b\<lparr>string_variables := (string_variables b)(name \<mapsto> s)\<rparr> # bs\<rparr>)) \<and>
   (get_var_string name i = Inl (Runtime_error (''Variable '' @ name @ '' undefined'')) \<longleftrightarrow>
      unbound string_variables (blocks i) name) \<and>
   (\<forall>i' name'. set_var_numeric name v i = Inr i' \<longrightarrow>
      get_var_string name' i' = get_var_string name' i) \<and>
   (\<forall>i' name'. set_var_string name s i = Inr i' \<longrightarrow>
      get_var_numeric name' i' = get_var_numeric name' i)"
proof -
  have n: "fst numeric_variables_member = numeric_variables"
    "snd numeric_variables_member = (\<lambda>m b. b\<lparr>numeric_variables := m\<rparr>)"
    by (simp_all add: numeric_variables_member_def)
  have s: "fst string_variables_member = string_variables"
    "snd string_variables_member = (\<lambda>m b. b\<lparr>string_variables := m\<rparr>)"
    by (simp_all add: string_variables_member_def)
  note found = set_var_found [of numeric_variables_member, unfolded n]
    set_var_found [of string_variables_member, unfolded s]
    get_var_found [of numeric_variables_member, unfolded n]
    get_var_found [of string_variables_member, unfolded s]
  note new = set_var_new [of numeric_variables_member, unfolded n]
    set_var_new [of string_variables_member, unfolded s]
  note undefined = get_var_undefined_iff [of _ numeric_variables_member, unfolded n]
    get_var_undefined_iff [of _ string_variables_member, unfolded s]
  show ?thesis
  proof (intro conjI impI allI, goal_cases)
    case 1
    show ?case by (rule innermost_or_unbound)
  next
    case 2
    then show ?case unfolding set_var_numeric_def by (rule found)
  next
    case 3
    then show ?case unfolding get_var_numeric_def by (rule found)
  next
    case 4
    then have "unbound numeric_variables (blocks i) name" and "blocks i = b # bs"
      by blast+
    then show ?case unfolding set_var_numeric_def by (rule new)
  next
    case 5
    show ?case unfolding get_var_numeric_def by (rule undefined)
  next
    case 6
    then show ?case unfolding set_var_string_def by (rule found)
  next
    case 7
    then show ?case unfolding get_var_string_def by (rule found)
  next
    case 8
    then have "unbound string_variables (blocks i) name" and "blocks i = b # bs"
      by blast+
    then show ?case unfolding set_var_string_def by (rule new)
  next
    case 9
    show ?case unfolding get_var_string_def by (rule undefined)
  next
    case (10 i' name')
    then show ?case by (rule get_var_string_after_set_var_numeric)
  next
    case (11 i' name')
    then show ?case by (rule get_var_numeric_after_set_var_string)
  qed
qed

text \<open>Two frames, \<open>x\<close> bound in the outer one only: the assignment goes to the outer frame,
  and \<open>y\<close> is undefined.\<close>

theorem variable_scoping_witness:
  "innermost numeric_variables
     [\<lparr>statement = None, block = Block [] Map.empty, current_statement = Iterator 0,
       numeric_variables = Map.empty, string_variables = Map.empty\<rparr>,
      \<lparr>statement = None, block = Block [] Map.empty, current_statement = Iterator 0,
       numeric_variables = [''x'' \<mapsto> number_of_int 1], string_variables = Map.empty\<rparr>]
     ''x'' 1 (number_of_int 1) \<and>
   set_var_numeric ''x'' (number_of_int 2)
     \<lparr>blocks =
        [\<lparr>statement = None, block = Block [] Map.empty, current_statement = Iterator 0,
          numeric_variables = Map.empty, string_variables = Map.empty\<rparr>,
         \<lparr>statement = None, block = Block [] Map.empty, current_statement = Iterator 0,
          numeric_variables = [''x'' \<mapsto> number_of_int 1], string_variables = Map.empty\<rparr>],
      should_stop = False\<rparr> =
   Inr \<lparr>blocks =
        [\<lparr>statement = None, block = Block [] Map.empty, current_statement = Iterator 0,
          numeric_variables = Map.empty, string_variables = Map.empty\<rparr>,
         \<lparr>statement = None, block = Block [] Map.empty, current_statement = Iterator 0,
          numeric_variables = [''x'' \<mapsto> number_of_int 2], string_variables = Map.empty\<rparr>],
      should_stop = False\<rparr> \<and>
   get_var_numeric ''x''
     \<lparr>blocks =
        [\<lparr>statement = None, block = Block [] Map.empty, current_statement = Iterator 0,
          numeric_variables = Map.empty, string_variables = Map.empty\<rparr>,
         \<lparr>statement = None, block = Block [] Map.empty, current_statement = Iterator 0,
          numeric_variables = [''x'' \<mapsto> number_of_int 1], string_variables = Map.empty\<rparr>],
      should_stop = False\<rparr> = Inr (number_of_int 1)"
proof -
  let ?top = "\<lparr>statement = None, block = Block [] Map.empty, current_statement = Iterator 0,
       numeric_variables = Map.empty, string_variables = Map.empty\<rparr>"
  let ?outer = "\<lparr>statement = None, block = Block [] Map.empty, current_statement = Iterator 0,
       numeric_variables = [''x'' \<mapsto> number_of_int 1], string_variables = Map.empty\<rparr>"
  let ?i = "\<lparr>blocks = [?top, ?outer], should_stop = False\<rparr>"
  have h: "innermost numeric_variables (blocks ?i) ''x'' 1 (number_of_int 1)"
    by (simp add: innermost_def)
  from variable_scoping [of ?i "''x''" 1 "number_of_int 1" "number_of_int 2"] h
  show ?thesis
    by simp
qed

section \<open>Evaluation of concrete programs\<close>

text \<open>The definitions that the simplifier unfolds when it runs the lexer, the parser and
  the interpreter on a concrete text.\<close>

lemmas lexer_defs = isdigit_def isalpha_def isalnum_def isspace_def tolower_def make_lexeme_def
  WHITESPACE_def SIMPLE_SYMBOLS_def isalphanum_def is_not_digit_def is_not_alnum_def equal_to_def
  skip_whitespace_def extract_until_def ignore_line_def get_lexeme_def

lemmas parser_defs = bindE_def number_of_int_def digit_value_def digits_value_def extract_int_def
  is_string_identifier_def BLOCK_TERMINATORS_def accept_any_def accept_def expect_def
  accept_relational_operator_def parse_expression_def parse_print_def parse_input_def
  parse_let_def parse_goto_def parse_stop_def parse_exit_def map_insert_def add_line_def
  parse_word_label_def skip_comment_def parse_then_label_def parse_if_goto_def parse_step_def
  parsers_map_keys_def parse_block_def parse_def copy_block_def new_if_block_stmt_def
  new_do_stmt_def new_for_stmt_def number_default_def

lemmas number_defs = number_of_int_def number_of_double_def static_cast_int_def
  number_of_bool_def
  get_integral_value_def get_floating_point_value_def is_integral_def is_true_def EPSILON_def
  check_and_promote_def plus_assign_def minus_assign_def times_assign_def div_assign_def
  mod_assign_def division_overflows_def INT_MIN_def INT_MAX_def int_div_def int_rem_def
  signed_divide_int_def signed_modulo_int_def number_eq_def number_neq_def number_less_def
  number_less_eq_def number_greater_def number_greater_eq_def truncate_double_def

lemmas interpreter_defs = bindE_def enter_block_def new_interpreter_def exit_block_def
  exit_block_named_def stop_def jump_def numeric_variables_member_def
  string_variables_member_def set_var_def get_var_def set_var_numeric_def set_var_string_def
  get_var_numeric_def get_var_string_def apply_arith_def apply_relational_def for_continues_def
  run_def map_insert_def getline_def

lemma show_nat_small: "n < 10 \<Longrightarrow> show_nat n = [digit_char n]"
  by (subst show_nat.simps) simp

lemma show_nat_large: "10 \<le> n \<Longrightarrow> show_nat n = show_nat (n div 10) @ [digit_char n]"
  by (subst show_nat.simps) simp

lemma floorlog_0: "floorlog b 0 = 0"
  by (simp add: floorlog_def)

lemma floorlog_step: "0 < x \<Longrightarrow> 1 < b \<Longrightarrow> floorlog b x = floorlog b (x div b) + 1"
  by (subst compute_floorlog) simp

lemmas show_int_defs = show_number_def is_integral_def get_integral_value_def show_int_def
  show_nat_small show_nat_large digit_char_def


section \<open>The arithmetic scenario\<close>

lemma decimal_exponent_half: "decimal_exponent (1 / 2) = - 1"
  by (simp add: decimal_exponent_def floorlog_0 floorlog_step)

lemma round_half_scaled: "round_half_even (scale10 (1 / 2) 6) = 500000"
  by (simp add: round_half_even_def scale10_def)

lemma show_nat_500000: "show_nat 500000 = ''500000''"
  by (simp add: digit_char_def show_nat_small show_nat_large)

lemma show_double_showpoint_half: "show_double_showpoint (1 / 2) = ''0.500000''"
  by (simp add: show_double_showpoint_def decimal_exponent_half round_half_scaled show_nat_500000)

lemma show_number_half:
  "show_number \<lparr>integral_value = 0, floating_point_value = 1 / 2, integral = False\<rparr> =
   ''0.500000''"
  by (simp add: show_number_def is_integral_def get_floating_point_value_def
      show_double_showpoint_half)

lemma parse_scenario2:
  "parse (Suc (Suc (Suc (Suc (Suc (Suc (Suc (Suc (Suc (Suc (Suc (Suc (Suc n)))))))))))))
     \<lparr>source = scenario2\<rparr> =
   Inr (Block
     [Print_stmt [Numeric (Arith_expr (Constant_expr (number_of_int 1))
        (Constant_expr (number_of_int 2)) operator_plus)],
      Print_stmt [Numeric (Arith_expr (Constant_expr (number_of_int 1))
        (Constant_expr (number_of_int 2)) operator_divides)],
      Print_stmt [Numeric (Arith_expr (Constant_expr (number_of_int 4))
        (Constant_expr (number_of_int 2)) operator_divides)]] Map.empty)"
  by (simp add: scenario2_def lexer_defs parser_defs)

lemma run_scenario2:
  "run (Suc (Suc (Suc (Suc (Suc n)))))
     (new_interpreter (Block
       [Print_stmt [Numeric (Arith_expr (Constant_expr (number_of_int 1))
          (Constant_expr (number_of_int 2)) operator_plus)],
        Print_stmt [Numeric (Arith_expr (Constant_expr (number_of_int 1))
          (Constant_expr (number_of_int 2)) operator_divides)],
        Print_stmt [Numeric (Arith_expr (Constant_expr (number_of_int 4))
          (Constant_expr (number_of_int 2)) operator_divides)]] Map.empty))
     \<lparr>cin = input, cout = []\<rparr> =
   (Inr \<lparr>blocks = [], should_stop = False\<rparr>,
    \<lparr>cin = input, cout = ''3\<newline>0.500000\<newline>2\<newline>''\<rparr>)"
  apply (simp add: interpreter_defs number_defs show_number_half)
  apply (simp add: show_int_defs)
  done

lemma basic_main_scenario2:
  "basic_main (Suc (Suc (Suc (Suc (Suc (Suc (Suc (Suc (Suc (Suc (Suc (Suc (Suc n)))))))))))))
     scenario2 input =
   (None, \<lparr>cin = input, cout = ''3\<newline>0.500000\<newline>2\<newline>''\<rparr>)"
  unfolding basic_main_def parse_scenario2
  using run_scenario2 [of "Suc (Suc (Suc (Suc (Suc (Suc (Suc (Suc n)))))))" input]
  by simp

lemma fuel_13: "13 \<le> n \<Longrightarrow>
  \<exists>m. n = Suc (Suc (Suc (Suc (Suc (Suc (Suc (Suc (Suc (Suc (Suc (Suc (Suc m))))))))))))"
  by presburger

text \<open>
  Claim C6, as amended.  Running the three-line program \<^verbatim>\<open>PRINT 1+2\<close>, \<^verbatim>\<open>PRINT 1/2\<close>,
  \<^verbatim>\<open>PRINT 4/2\<close> (with enough fuel for the bounded recursions) ends without an error and
  writes exactly \<^verbatim>\<open>3\<close>, \<^verbatim>\<open>0.500000\<close>, \<^verbatim>\<open>2\<close>, each followed by a newline: the first and the third
  result print as integers without a decimal point, and the second prints with six
  significant digits, as \<^verbatim>\<open>std::showpoint\<close> makes it.
\<close>

theorem scenario2_output:
  "13 \<le> n \<Longrightarrow>
   basic_main n scenario2 input =
     (None, \<lparr>cin = input, cout = ''3\<newline>0.500000\<newline>2\<newline>''\<rparr>)"
proof -
  assume "13 \<le> n"
  then obtain m where
    "n = Suc (Suc (Suc (Suc (Suc (Suc (Suc (Suc (Suc (Suc (Suc (Suc (Suc m))))))))))))"
    using fuel_13 by blast
  then show ?thesis
    by (simp only: basic_main_scenario2)
qed

theorem scenario2_output_witness:
  "(13 :: nat) \<le> 13 \<and>
   basic_main 13 scenario2 [] = (None, \<lparr>cin = [], cout = ''3\<newline>0.500000\<newline>2\<newline>''\<rparr>)"
  using scenario2_output [of 13 "[]"] by simp

text \<open>Claim C6 as stated fails: the output is not \<^verbatim>\<open>3\<close>, \<^verbatim>\<open>0.5\<close>, \<^verbatim>\<open>2\<close>.\<close>

theorem scenario2_output_counterexample:
  "basic_main 13 scenario2 [] \<noteq> (None, \<lparr>cin = [], cout = ''3\<newline>0.5\<newline>2\<newline>''\<rparr>)"
proof -
  have "basic_main 13 scenario2 [] =
      (None, \<lparr>cin = [], cout = ''3\<newline>0.500000\<newline>2\<newline>''\<rparr>)"
    using basic_main_scenario2 [of 0 "[]"] by (simp add: eval_nat_numeral)
  then show ?thesis
    by simp
qed


section \<open>STOP\<close>

text \<open>\<^verbatim>\<open>interpreter::stop\<close> clears the frame stack and sets the flag.\<close>

lemma stop_clears: "blocks (stop i) = [] \<and> should_stop (stop i)"
  by (simp add: stop_def)

text \<open>Whenever the inner loop of \<^verbatim>\<open>run\<close> executes a STOP statement, its next step is
  the evaluation of the loop condition, which reads \<^verbatim>\<open>blocks.front()\<close> of the stack that
  STOP has just emptied.\<close>

lemma run_inner_stop:
  assumes "blocks i = b # rest" and "current_statement b = Iterator k"
    and "k < length (statements (block b))" and "statements (block b) ! k = Stop_stmt"
    and "\<not> should_stop i"
  shows "run_inner (Suc (Suc n)) i w = (Inl (Undefined_behaviour ''front() of an empty deque''), w)"
  using assms by (simp add: stop_def)

text \<open>
  Claim C2 at the failing input \<^verbatim>\<open>STOP\<close>: the program is parsed, the statement is executed,
  and the run loop then reads the front frame of the empty frame stack.
\<close>

theorem stop_reads_front_of_empty_stack:
  "basic_main 5 ''STOP\<newline>'' [] =
   (Some (Undefined_behaviour ''front() of an empty deque''), \<lparr>cin = [], cout = []\<rparr>)"
proof -
  have p: "parse (Suc (Suc (Suc (Suc (Suc 0))))) \<lparr>source = ''STOP\<newline>''\<rparr> =
      Inr (Block [Stop_stmt] Map.empty)"
    by (simp add: lexer_defs parser_defs)
  have r: "run (Suc (Suc (Suc (Suc (Suc 0))))) (new_interpreter (Block [Stop_stmt] Map.empty))
      \<lparr>cin = [], cout = []\<rparr> =
      (Inl (Undefined_behaviour ''front() of an empty deque''), \<lparr>cin = [], cout = []\<rparr>)"
    by (simp add: interpreter_defs)
  from p r show ?thesis
    by (simp add: basic_main_def eval_nat_numeral)
qed

text \<open>The same inside a loop: after STOP in the body of \<^verbatim>\<open>DO WHILE X\<close> the loop condition
  of \<^verbatim>\<open>run\<close> is evaluated on the empty stack.\<close>

lemma stop_in_loop:
  "basic_main 12 ''LET X = 1\<newline>DO WHILE X\<newline>STOP\<newline>LOOP\<newline>'' [] =
   (Some (Undefined_behaviour ''front() of an empty deque''), \<lparr>cin = [], cout = []\<rparr>)"
proof -
  have p: "parse (Suc (Suc (Suc (Suc (Suc (Suc (Suc (Suc (Suc (Suc (Suc (Suc 0))))))))))))
      \<lparr>source = ''LET X = 1\<newline>DO WHILE X\<newline>STOP\<newline>LOOP\<newline>''\<rparr> =
      Inr (Block
        [Let_stmt ''x'' (Some (Constant_expr (number_of_int 1))) None,
         Block_stmt (Do_stmt (Variable_expr ''x'') (Block [Empty_stmt, Stop_stmt] Map.empty))]
        Map.empty)"
    by (simp add: lexer_defs parser_defs)
  have r: "run (Suc (Suc (Suc (Suc (Suc (Suc (Suc (Suc (Suc (Suc (Suc (Suc 0))))))))))))
      (new_interpreter (Block
        [Let_stmt ''x'' (Some (Constant_expr (number_of_int 1))) None,
         Block_stmt (Do_stmt (Variable_expr ''x'') (Block [Empty_stmt, Stop_stmt] Map.empty))]
        Map.empty))
      \<lparr>cin = [], cout = []\<rparr> =
      (Inl (Undefined_behaviour ''front() of an empty deque''), \<lparr>cin = [], cout = []\<rparr>)"
    by (simp add: interpreter_defs number_defs)
  from p r show ?thesis
    by (simp add: basic_main_def eval_nat_numeral)
qed


section \<open>INPUT\<close>

lemma getline_terminated:
  "CHR 0x0A \<notin> set input_line \<Longrightarrow> getline (input_line @ CHR 0x0A # rest) = (input_line, rest)"
  by (induction input_line) (auto simp: getline_def)

lemma getline_unterminated:
  "CHR 0x0A \<notin> set input_line \<Longrightarrow> getline input_line = (input_line, [])"
  by (induction input_line) (auto simp: getline_def)

text \<open>The extraction of an \<^verbatim>\<open>int\<close> in terms of the integer the text starts with.\<close>

lemma extract_int_integer_prefix:
  "extract_int s =
     (case integer_prefix s of
        None \<Rightarrow> (0, False)
      | Some v \<Rightarrow>
          if v < - (2 ^ 31) then (INT_MIN, False)
          else if 2 ^ 31 - 1 < v then (INT_MAX, False)
          else (word_of_int v, True))"
  by (simp add: extract_int_def integer_prefix_def Let_def)

lemma extract_int_succeeds_iff:
  "snd (extract_int s) \<longleftrightarrow> (\<exists>v. integer_prefix s = Some v \<and> fits_int v)"
  by (auto simp: extract_int_integer_prefix fits_int_def split: option.splits)

lemma extract_int_value:
  "integer_prefix s = Some v \<Longrightarrow> fits_int v \<Longrightarrow> extract_int s = (word_of_int v, True)"
  by (auto simp: extract_int_integer_prefix fits_int_def)

lemma set_var_not_runtime_error: "set_var name vm v i \<noteq> Inl (Runtime_error msg)"
  by (simp add: set_var_def split: option.splits list.splits prod.splits)

lemma execute_input:
  "execute (Input_stmt var_name) i w =
     (input_result var_name (fst (getline (cin w))) i,
      \<lparr>cin = snd (getline (cin w)), cout = cout w @ ''? ''\<rparr>)"
proof (cases "integer_prefix (fst (getline (cin w)))")
  case None
  then show ?thesis
    by (simp add: input_result_def extract_int_integer_prefix Let_def)
next
  case (Some v)
  then show ?thesis
    by (simp add: input_result_def extract_int_integer_prefix Let_def fits_int_def not_less)
qed

text \<open>
  Claim C5, as amended.  Executing INPUT appends the prompt \<^verbatim>\<open>"? "\<close> (and no newline) to
  the standard output and consumes one line of the standard input: the characters up to
  the next newline and that newline, or all that is left when there is no newline.  It
  throws the runtime error "User input error: expected an integer" if and only if the
  line, after leading white space, does not start with an optionally signed run of
  decimal digits whose value fits a 32-bit \<^verbatim>\<open>int\<close>; otherwise it assigns that integer to
  the named numeric variable, whatever follows the digits on the line.
\<close>

theorem input_statement:
  "CHR 0x0A \<notin> set input_line \<Longrightarrow>
   execute (Input_stmt var_name) i \<lparr>cin = input_line @ CHR 0x0A # rest, cout = out\<rparr> =
     (input_result var_name input_line i, \<lparr>cin = rest, cout = out @ ''? ''\<rparr>) \<and>
   execute (Input_stmt var_name) i \<lparr>cin = input_line, cout = out\<rparr> =
     (input_result var_name input_line i, \<lparr>cin = [], cout = out @ ''? ''\<rparr>) \<and>
   ((\<exists>msg. input_result var_name input_line i = Inl (Runtime_error msg)) \<longleftrightarrow>
      \<not> (\<exists>v. integer_prefix input_line = Some v \<and> fits_int v)) \<and>
   (\<forall>v. integer_prefix input_line = Some v \<and> fits_int v \<longrightarrow>
      input_result var_name input_line i = set_var_numeric var_name (number_of_int (word_of_int v)) i)"
proof -
  assume nl: "CHR 0x0A \<notin> set input_line"
  have terminated:
    "execute (Input_stmt var_name) i \<lparr>cin = input_line @ CHR 0x0A # rest, cout = out\<rparr> =
       (input_result var_name input_line i, \<lparr>cin = rest, cout = out @ ''? ''\<rparr>)"
    unfolding execute_input using nl by (simp add: getline_terminated)
  have unterminated:
    "execute (Input_stmt var_name) i \<lparr>cin = input_line, cout = out\<rparr> =
       (input_result var_name input_line i, \<lparr>cin = [], cout = out @ ''? ''\<rparr>)"
    unfolding execute_input using nl by (simp add: getline_unterminated)
  have error_iff:
    "(\<exists>msg. input_result var_name input_line i = Inl (Runtime_error msg)) \<longleftrightarrow>
       \<not> (\<exists>v. integer_prefix input_line = Some v \<and> fits_int v)"
    by (auto simp: input_result_def set_var_numeric_def set_var_not_runtime_error
        split: option.splits)
  have assigned:
    "\<forall>v. integer_prefix input_line = Some v \<and> fits_int v \<longrightarrow>
       input_result var_name input_line i = set_var_numeric var_name (number_of_int (word_of_int v)) i"
    by (simp add: input_result_def)
  from terminated unterminated error_iff assigned show ?thesis
    by (intro conjI)
qed

theorem input_statement_witness:
  "CHR 0x0A \<notin> set ''-7 apples'' \<and>
   integer_prefix ''-7 apples'' = Some (- 7) \<and> fits_int (- 7) \<and>
   execute (Input_stmt ''x'') (new_interpreter (Block [] Map.empty))
     \<lparr>cin = ''-7 apples\<newline>next'', cout = []\<rparr> =
   (set_var_numeric ''x'' (number_of_int (- 7)) (new_interpreter (Block [] Map.empty)),
    \<lparr>cin = ''next'', cout = ''? ''\<rparr>)"
proof -
  have nl: "CHR 0x0A \<notin> set ''-7 apples''"
    by simp
  have p: "integer_prefix ''-7 apples'' = Some (- 7)"
    by (simp add: integer_prefix_def isspace_def isdigit_def digits_value_def digit_value_def)
  have f: "fits_int (- 7)"
    by (simp add: fits_int_def)
  from input_statement [OF nl, of "''x''" "new_interpreter (Block [] Map.empty)" "''next''" "[]"]
    nl p f
  show ?thesis
    by simp
qed

text \<open>Claim C5 as stated fails: the line \<^verbatim>\<open>12abc\<close> is not an integer, and INPUT throws no
  error but assigns 12.\<close>

theorem input_statement_counterexample:
  "\<not> line_is_integer ''12abc'' \<and>
   execute (Input_stmt ''x'') (new_interpreter (Block [] Map.empty))
     \<lparr>cin = ''12abc\<newline>'', cout = []\<rparr> =
   (Inr \<lparr>blocks =
          [\<lparr>statement = None, block = Block [] Map.empty, current_statement = Iterator 0,
            numeric_variables = [''x'' \<mapsto> number_of_int 12],
            string_variables = Map.empty\<rparr>],
        should_stop = False\<rparr>,
    \<lparr>cin = [], cout = ''? ''\<rparr>)"
proof -
  have "\<not> line_is_integer ''12abc''"
    by (simp add: line_is_integer_def isdigit_def)
  moreover have "integer_prefix ''12abc'' = Some 12"
    by (simp add: integer_prefix_def isspace_def isdigit_def digits_value_def digit_value_def)
  then have "execute (Input_stmt ''x'') (new_interpreter (Block [] Map.empty))
     \<lparr>cin = ''12abc\<newline>'', cout = []\<rparr> =
   (set_var_numeric ''x'' (number_of_int 12) (new_interpreter (Block [] Map.empty)),
    \<lparr>cin = [], cout = ''? ''\<rparr>)"
    unfolding execute_input by (simp add: getline_def input_result_def fits_int_def)
  moreover have "set_var_numeric ''x'' (number_of_int 12) (new_interpreter (Block [] Map.empty)) =
    Inr \<lparr>blocks =
          [\<lparr>statement = None, block = Block [] Map.empty, current_statement = Iterator 0,
            numeric_variables = [''x'' \<mapsto> number_of_int 12],
            string_variables = Map.empty\<rparr>],
        should_stop = False\<rparr>"
    by (simp add: interpreter_defs)
  ultimately show ?thesis
    by simp
qed


section \<open>The end of a program\<close>

text \<open>The lexer reports the end of the input exactly when no lexeme is left.\<close>

lemma get_lexeme_None_iff:
  "(\<exists>lx'. get_lexeme lx = Inr (None, lx')) \<longleftrightarrow> no_more_input (source lx)"
proof (cases "dropWhile (\<lambda>c. c \<in> set WHITESPACE) (source lx)")
  case Nil
  then have src: "source (skip_whitespace lx) = []"
    by (simp add: skip_whitespace_def)
  have nm: "no_more_input (source lx)"
    unfolding no_more_input_def Nil by simp
  show ?thesis
    unfolding get_lexeme_def Let_def src list.case using nm by simp
next
  case (Cons c cs)
  then have src: "source (skip_whitespace lx) = c # cs"
    by (simp add: skip_whitespace_def)
  have nm: "no_more_input (source lx) \<longleftrightarrow> c = CHR 0xFF"
    unfolding no_more_input_def Cons by simp
  show ?thesis
    unfolding nm get_lexeme_def Let_def src list.case
    by (auto split: prod.splits)
qed

lemma accept_any_next:
  "accept_any st0 = Inr (x, st) \<Longrightarrow>
   (next_symbol st = None \<longleftrightarrow> no_more_input (source (lexer st0)))"
  using get_lexeme_None_iff [of "lexer st0"]
  by (auto simp: accept_any_def split: sum.splits)

lemma accept_Some:
  "accept st ty v = Inr (Some l, st') \<Longrightarrow>
   next_symbol st = Some l \<and> l_type l = ty \<and> accept_any st = Inr (Some l, st')"
  by (auto simp: accept_def accept_any_def split: option.splits if_splits sum.splits)

lemma expect_Inr:
  "expect st ty v = Inr (l, st') \<Longrightarrow>
   next_symbol st = Some l \<and> l_type l = ty \<and> accept_any st = Inr (Some l, st')"
  by (auto simp: expect_def dest: accept_Some split: sum.splits option.splits prod.splits)

lemma parse_word_label_accepted:
  assumes "parse_word_label n result symbol st1 = Inr ((r, symb), st')"
    and "accepted_word st0 symbol st1"
  shows "(\<exists>st0'. accepted_word st0' symb st') \<and> line_statement r = line_statement result"
  using assms
  by (auto simp: parse_word_label_def bindE_def accepted_word_def dest!: expect_Inr
      split: if_splits sum.splits prod.splits)

lemma parse_line_terminator:
  "parse_line n result tk st = Inr ((l, tk'), st') \<Longrightarrow> line_statement result = None \<Longrightarrow>
   line_statement l = None \<Longrightarrow>
   tk' \<in> set BLOCK_TERMINATORS \<and>
   (\<exists>st0 w. l_value w = tk' \<and> accepted_word st0 w st')"
proof (induction n arbitrary: result tk st)
  case 0
  then show ?case by simp
next
  case (Suc n)
  note run = Suc.prems(1) and final = Suc.prems(3)
  show ?case
  proof (cases "accept st type_number None")
    case (Inl e)
    with run show ?thesis by (simp add: bindE_def)
  next
    case (Inr p)
    obtain symbol0 st1 where p: "p = (symbol0, st1)"
      by (cases p)
    define result1 where
      "result1 = (case symbol0 of Some l \<Rightarrow> result\<lparr>label := l_value l\<rparr> | None \<Rightarrow> result)"
    have r1: "line_statement result1 = None"
      using Suc.prems(2) by (simp add: result1_def split: option.splits)
    note a1 = Inr [unfolded p]
    show ?thesis
    proof (cases "accept st1 type_word None")
      case (Inl e)
      with run a1 show ?thesis by (simp add: bindE_def)
    next
      case (Inr q)
      obtain symbol1 st2 where q: "q = (symbol1, st2)"
        by (cases q)
      note a2 = Inr [unfolded q]
      show ?thesis
      proof (cases symbol1)
        case None
        with run final a1 a2 show ?thesis
          by (cases "expect st2 type_end None") (auto simp: bindE_def)
      next
        case (Some symbol)
        from a2 Some have acc: "accepted_word st1 symbol st2"
          using accept_Some [of st1 type_word None symbol st2] by (simp add: accepted_word_def)
        show ?thesis
        proof (cases "l_value symbol = ''rem''")
          case True
          show ?thesis
          proof (cases "skip_comment st2")
            case (Inl e)
            with run a1 a2 Some True show ?thesis by (simp add: bindE_def)
          next
            case (Inr st3)
            with run a1 a2 Some True
            have "parse_line n result1 tk st3 = Inr ((l, tk'), st')"
              by (simp add: bindE_def result1_def)
            from Suc.IH [OF this r1 final] show ?thesis .
          qed
        next
          case False
          show ?thesis
          proof (cases "parse_word_label n result1 symbol st2")
            case (Inl e)
            with run a1 a2 Some False show ?thesis by (simp add: bindE_def result1_def)
          next
            case (Inr w)
            obtain result2 symbol2 st3 where w: "w = ((result2, symbol2), st3)"
              by (cases w) auto
            note wl = Inr [unfolded w]
            from parse_word_label_accepted [OF wl acc] r1 obtain st0' where
              acc2: "accepted_word st0' symbol2 st3" and r2: "line_statement result2 = None"
              by auto
            show ?thesis
            proof (cases "l_value symbol2 = ''rem''")
              case True
              show ?thesis
              proof (cases "skip_comment st3")
                case (Inl e)
                with run a1 a2 Some False wl True show ?thesis
                  by (simp add: bindE_def result1_def)
              next
                case (Inr st4)
                with run a1 a2 Some False wl True
                have "parse_line n result2 tk st4 = Inr ((l, tk'), st')"
                  by (simp add: bindE_def result1_def)
                from Suc.IH [OF this r2 final] show ?thesis .
              qed
            next
              case rem: False
              show ?thesis
              proof (cases "l_value symbol2 \<in> set parsers_map_keys")
                case True
                show ?thesis
                proof (cases "parse_statement n (l_value symbol2) st3")
                  case (Inl e)
                  with run a1 a2 Some False wl rem True show ?thesis
                    by (simp add: bindE_def result1_def)
                next
                  case (Inr sp)
                  obtain s st4 where sp: "sp = (s, st4)"
                    by (cases sp)
                  from run final a1 a2 Some False wl rem True Inr [unfolded sp] show ?thesis
                    by (cases "expect st4 type_end None") (auto simp: bindE_def result1_def)
                qed
              next
                case nokey: False
                show ?thesis
                proof (cases "l_value symbol2 \<in> set BLOCK_TERMINATORS")
                  case True
                  with run a1 a2 Some False wl rem nokey
                  have "l = result2 \<and> tk' = l_value symbol2 \<and> st' = st3"
                    by (simp add: bindE_def result1_def)
                  with acc2 True show ?thesis
                    by auto
                next
                  case False
                  with run a1 a2 Some \<open>l_value symbol \<noteq> ''rem''\<close> wl rem nokey show ?thesis
                    by (simp add: bindE_def result1_def)
                qed
              qed
            qed
          qed
        qed
      qed
    qed
  qed
qed

lemma parse_block_loop_terminator:
  "parse_block_loop n blk tk st = Inr ((b, t), st') \<Longrightarrow>
   (t = [] \<and> next_symbol st' = None) \<or>
   (t \<in> set BLOCK_TERMINATORS \<and> (\<exists>st0 w. l_value w = t \<and> accepted_word st0 w st'))"
proof (induction n arbitrary: blk tk st)
  case 0
  then show ?case by simp
next
  case (Suc n)
  show ?case
  proof (cases "next_symbol st = None")
    case True
    with Suc.prems show ?thesis by simp
  next
    case False
    show ?thesis
    proof (cases "parse_line n \<lparr>label = [], line_statement = None\<rparr> tk st")
      case (Inl e)
      with Suc.prems False show ?thesis by (simp add: bindE_def)
    next
      case (Inr p)
      obtain l tk1 st1 where p: "p = ((l, tk1), st1)"
        by (cases p) auto
      note pl = Inr [unfolded p]
      show ?thesis
      proof (cases "line_statement l")
        case None
        with Suc.prems False pl have "b = blk" "t = tk1" "st' = st1"
          by (simp_all add: bindE_def)
        with parse_line_terminator [OF pl _ None] show ?thesis
          by simp
      next
        case (Some s)
        with Suc.prems False pl
        have "parse_block_loop n (add_line blk (label l) s) tk1 st1 = Inr ((b, t), st')"
          by (simp add: bindE_def)
        from Suc.IH [OF this] show ?thesis .
      qed
    qed
  qed
qed

lemma BLOCK_TERMINATORS_nonempty: "t \<in> set BLOCK_TERMINATORS \<Longrightarrow> t \<noteq> []"
  by (auto simp: BLOCK_TERMINATORS_def)

text \<open>
  Claim C7, as amended.  \<^verbatim>\<open>parse\<close> returns a block exactly when \<^verbatim>\<open>parse_block\<close> returns it
  and the terminating keyword is absent (the end of the input was reached) or is \<^verbatim>\<open>end\<close>
  with no lexeme after it; with any other outcome of \<^verbatim>\<open>parse_block\<close> it throws the syntax
  error "Unexpected ..., expected END or end-of-file".  A terminating keyword is the
  look-ahead word that was accepted last, and there is no lexeme after it exactly when the
  input that follows the keyword holds nothing but blanks and tabs (up to the end of the
  text, or up to a byte 255): a newline after \<^verbatim>\<open>end\<close> is a lexeme, so a program whose last line is \<^verbatim>\<open>end\<close> followed by a newline is a syntax
  error.
\<close>

theorem parse_top_level:
  "(parse n lx = Inr b \<longleftrightarrow>
      (\<exists>l lx1 t st.
         get_lexeme lx = Inr (l, lx1) \<and>
         parse_block n [] \<lparr>lexer = lx1, next_symbol = l\<rparr> = Inr ((b, t), st) \<and>
         (t = [] \<or> (t = ''end'' \<and> next_symbol st = None)))) \<and>
   (\<forall>l lx1 t st.
      get_lexeme lx = Inr (l, lx1) \<and>
      parse_block n [] \<lparr>lexer = lx1, next_symbol = l\<rparr> = Inr ((b, t), st) \<longrightarrow>
      (t = [] \<longrightarrow> next_symbol st = None) \<and>
      (t \<noteq> [] \<longrightarrow>
         (\<exists>st0 w. l_value w = t \<and> accepted_word st0 w st \<and>
            (next_symbol st = None \<longleftrightarrow> no_more_input (source (lexer st0))))) \<and>
      (\<not> (t = [] \<or> (t = ''end'' \<and> next_symbol st = None)) \<longrightarrow>
         parse n lx =
           Inl (Syntax_error (''Unexpected '' @ t @ '', expected END or end-of-file''))))"
proof (intro conjI allI impI)
  show "parse n lx = Inr b \<longleftrightarrow>
      (\<exists>l lx1 t st.
         get_lexeme lx = Inr (l, lx1) \<and>
         parse_block n [] \<lparr>lexer = lx1, next_symbol = l\<rparr> = Inr ((b, t), st) \<and>
         (t = [] \<or> (t = ''end'' \<and> next_symbol st = None)))"
  proof (cases "get_lexeme lx")
    case (Inl e)
    then show ?thesis by (simp add: parse_def)
  next
    case (Inr p)
    obtain l0 lx0 where p: "p = (l0, lx0)"
      by (cases p)
    note g = Inr [unfolded p]
    show ?thesis
    proof (cases "parse_block n [] \<lparr>lexer = lx0, next_symbol = l0\<rparr>")
      case (Inl e)
      with g show ?thesis by (simp add: parse_def)
    next
      case (Inr q)
      obtain b0 t0 st0 where q: "q = ((b0, t0), st0)"
        by (cases q) auto
      from g Inr [unfolded q] show ?thesis
        by (auto simp: parse_def)
    qed
  qed
next
  fix l lx1 t st
  assume h: "get_lexeme lx = Inr (l, lx1) \<and>
      parse_block n [] \<lparr>lexer = lx1, next_symbol = l\<rparr> = Inr ((b, t), st)"
  then have pb: "parse_block_loop n (Block [] Map.empty) [] \<lparr>lexer = lx1, next_symbol = l\<rparr> =
      Inr ((b, t), st)"
    by (simp add: parse_block_def)
  note tm = parse_block_loop_terminator [OF pb]
  show "next_symbol st = None" if "t = []"
    using tm that by (auto dest: BLOCK_TERMINATORS_nonempty)
  show "\<exists>st0 w. l_value w = t \<and> accepted_word st0 w st \<and>
      (next_symbol st = None \<longleftrightarrow> no_more_input (source (lexer st0)))" if "t \<noteq> []"
  proof -
    from tm that obtain st0 w where w: "l_value w = t" "accepted_word st0 w st"
      by auto
    then have "accept_any st0 = Inr (Some w, st)"
      by (simp add: accepted_word_def)
    from w(1) w(2) accept_any_next [OF this] show ?thesis
      by - (rule exI [of _ st0], rule exI [of _ w], intro conjI, assumption+)
  qed
  show "parse n lx = Inl (Syntax_error (''Unexpected '' @ t @ '', expected END or end-of-file''))"
    if "\<not> (t = [] \<or> (t = ''end'' \<and> next_symbol st = None))"
    using h that by (auto simp: parse_def)
qed

theorem parse_top_level_witness:
  "get_lexeme \<lparr>source = ''end  ''\<rparr> =
     Inr (Some \<lparr>l_type = type_word, l_value = ''end''\<rparr>, \<lparr>source = ''  ''\<rparr>) \<and>
   parse_block 3 [] \<lparr>lexer = \<lparr>source = ''  ''\<rparr>,
       next_symbol = Some \<lparr>l_type = type_word, l_value = ''end''\<rparr>\<rparr> =
     Inr ((Block [] Map.empty, ''end''), \<lparr>lexer = \<lparr>source = []\<rparr>, next_symbol = None\<rparr>) \<and>
   parse 3 \<lparr>source = ''end  ''\<rparr> = Inr (Block [] Map.empty)"
proof -
  have g: "get_lexeme \<lparr>source = ''end  ''\<rparr> =
     Inr (Some \<lparr>l_type = type_word, l_value = ''end''\<rparr>, \<lparr>source = ''  ''\<rparr>)"
    by (simp add: lexer_defs)
  have p: "parse_block 3 [] \<lparr>lexer = \<lparr>source = ''  ''\<rparr>,
       next_symbol = Some \<lparr>l_type = type_word, l_value = ''end''\<rparr>\<rparr> =
     Inr ((Block [] Map.empty, ''end''), \<lparr>lexer = \<lparr>source = []\<rparr>, next_symbol = None\<rparr>)"
    by (simp add: eval_nat_numeral lexer_defs parser_defs)
  from parse_top_level [of 3 "\<lparr>source = ''end  ''\<rparr>" "Block [] Map.empty"] g p
  have "parse 3 \<lparr>source = ''end  ''\<rparr> = Inr (Block [] Map.empty)"
    by auto
  with g p show ?thesis
    by simp
qed

text \<open>Claim C7 as stated fails: the program that consists of the line \<^verbatim>\<open>end\<close> and its
  newline does not parse.\<close>

theorem parse_top_level_counterexample:
  "parse 3 \<lparr>source = ''end\<newline>''\<rparr> =
   Inl (Syntax_error ''Unexpected end, expected END or end-of-file'')"
  by (simp add: eval_nat_numeral lexer_defs parser_defs)

text \<open>The same for every amount of fuel: the text never parses.\<close>

lemma parse_end_newline_never:
  "parse n \<lparr>source = ''end\<newline>''\<rparr> \<noteq> Inr b"
proof (cases "n < 3")
  case True
  then consider "n = 0" | "n = Suc 0" | "n = Suc (Suc 0)"
    by arith
  then show ?thesis
    by cases (simp_all add: lexer_defs parser_defs)
next
  case False
  define m where "m = n - 3"
  with False have "n = Suc (Suc (Suc m))"
    by simp
  then show ?thesis
    by (simp add: lexer_defs parser_defs)
qed


section \<open>Subtraction\<close>

lemma isdigit_not_blank: "isdigit c \<Longrightarrow> c \<notin> set WHITESPACE \<and> c \<noteq> CHR 0xFF"
  by (auto simp: isdigit_def WHITESPACE_def)

lemma extract_chars_digits:
  "list_all isdigit w \<Longrightarrow> rest = [] \<or> \<not> isdigit (hd rest) \<Longrightarrow>
   extract_chars is_not_digit (w @ rest) = (w, rest)"
proof (induction w)
  case Nil
  then show ?case
    by (cases rest) (simp_all add: is_not_digit_def)
next
  case (Cons d w)
  then show ?case
    by (simp add: is_not_digit_def)
qed

text \<open>The lexer on a numeric literal that is followed by a character other than a digit
  and a decimal point.\<close>

lemma get_lexeme_number:
  assumes a: "number_text a" and r: "\<not> isdigit r" "r \<noteq> CHR ''.''"
  shows "get_lexeme \<lparr>source = a @ r # s\<rparr> =
    Inr (Some (make_lexeme type_number a), \<lparr>source = r # s\<rparr>)"
proof -
  define w where "w = takeWhile isdigit a"
  define t where "t = dropWhile isdigit a"
  have split: "a = w @ t"
    by (simp add: w_def t_def)
  have w: "w \<noteq> []" "list_all isdigit w"
    using a by (simp_all add: w_def number_text_def list_all_iff) (meson set_takeWhileD)
  then obtain d w' where wd: "w = d # w'" "isdigit d"
    by (cases w) auto
  have skip: "skip_whitespace \<lparr>source = a @ r # s\<rparr> = \<lparr>source = a @ r # s\<rparr>"
    using wd isdigit_not_blank [of d] by (simp add: skip_whitespace_def split)
  have hd: "source \<lparr>source = a @ r # s\<rparr> = d # (w' @ t @ r # s)"
    by (simp add: split wd)
  from a have "t = [] \<or> (\<exists>ds. t = CHR ''.'' # ds \<and> list_all isdigit ds)"
    unfolding number_text_def t_def [symmetric]
    by (cases t) auto
  then show ?thesis
  proof
    assume t: "t = []"
    have "extract_chars is_not_digit (a @ r # s) = (a, r # s)"
      using extract_chars_digits [of w "r # s"] w r by (simp add: split t)
    then show ?thesis
      unfolding get_lexeme_def Let_def skip hd list.case
      using wd isdigit_not_blank [of d] r
      by (simp add: extract_until_def split wd)
  next
    assume "\<exists>ds. t = CHR ''.'' # ds \<and> list_all isdigit ds"
    then obtain ds where t: "t = CHR ''.'' # ds" and ds: "list_all isdigit ds"
      by blast
    have nd: "\<not> isdigit CHR ''.''"
      by (simp add: isdigit_def)
    have e1: "extract_chars is_not_digit (a @ r # s) = (w, CHR ''.'' # ds @ r # s)"
      using extract_chars_digits [of w "CHR ''.'' # ds @ r # s"] w nd by (simp add: split t)
    have e2: "extract_chars is_not_digit (ds @ r # s) = (ds, r # s)"
      using extract_chars_digits [of ds "r # s"] ds r by simp
    show ?thesis
      unfolding get_lexeme_def Let_def skip hd list.case
      using wd isdigit_not_blank [of d] e1 e2
      by (simp add: extract_until_def split t)
  qed
qed

lemma get_lexeme_blank: "get_lexeme \<lparr>source = CHR '' '' # s\<rparr> = get_lexeme \<lparr>source = s\<rparr>"
  by (simp add: get_lexeme_def skip_whitespace_def WHITESPACE_def)

lemma get_lexeme_minus:
  "get_lexeme \<lparr>source = CHR ''-'' # s\<rparr> =
   Inr (Some \<lparr>l_type = type_symbol, l_value = ''-''\<rparr>, \<lparr>source = s\<rparr>)"
  by (simp add: get_lexeme_def skip_whitespace_def WHITESPACE_def SIMPLE_SYMBOLS_def
      isdigit_def make_lexeme_def)

lemma get_lexeme_newline:
  "get_lexeme \<lparr>source = CHR 0x0A # s\<rparr> =
   Inr (Some \<lparr>l_type = type_end, l_value = []\<rparr>,
        \<lparr>source = skip_newlines (CHR 0x0A # s)\<rparr>)"
  by (simp add: get_lexeme_def skip_whitespace_def WHITESPACE_def SIMPLE_SYMBOLS_def
      isdigit_def make_lexeme_def del: skip_newlines.simps)

lemma make_lexeme_number_type: "l_type (make_lexeme type_number a) = type_number"
  by (simp add: make_lexeme_def)

text \<open>\<^verbatim>\<open>parse_factor\<close> on a numeric literal: the constant of the literal, and the look-ahead
  moves on.\<close>

lemma parse_factor_number:
  assumes "get_lexeme lx = Inr (l', lx')"
  shows "parse_factor (Suc n) \<lparr>lexer = lx, next_symbol = Some (make_lexeme type_number a)\<rparr> =
    Inr (Constant_expr (constant_of_literal a), \<lparr>lexer = lx', next_symbol = l'\<rparr>)"
  using assms
  by (simp add: accept_def accept_any_def make_lexeme_number_type constant_of_literal_def)

lemma parse_term_number:
  assumes "get_lexeme lx = Inr (Some l', lx')"
    and "l_type l' = type_end \<or> (l_type l' = type_symbol \<and> l_value l' = ''-'')"
  shows "parse_term (Suc (Suc n)) \<lparr>lexer = lx, next_symbol = Some (make_lexeme type_number a)\<rparr> =
    Inr (Constant_expr (constant_of_literal a), \<lparr>lexer = lx', next_symbol = Some l'\<rparr>)"
  using assms(2)
  by (auto simp: parse_factor_number [OF assms(1)] accept_def simp del: parse_factor.simps)

text \<open>
  Claim C8.  For all numeric literals \<open>a\<close>, \<open>b\<close> and \<open>c\<close>, the parser reads the text
  \<open>a - b - c\<close> as the subtraction of the expression \<open>b - c\<close> from \<open>a\<close>: the right operand of
  the first subtraction is the whole remaining subtraction, since \<^verbatim>\<open>parse_integer_expr\<close>
  calls itself for its right operand.  The expression therefore evaluates to
  \<open>a - (b - c)\<close>.
\<close>

theorem subtraction_right_associative:
  assumes "number_text a" and "number_text b" and "number_text c" and "7 \<le> n"
  shows "parse_expression_text n (a @ '' - '' @ b @ '' - '' @ c @ CHR 0x0A # rest) =
      Inr (Arith_expr (Constant_expr (constant_of_literal a))
             (Arith_expr (Constant_expr (constant_of_literal b))
                (Constant_expr (constant_of_literal c)) operator_minus)
             operator_minus) \<and>
    evaluate
      (Arith_expr (Constant_expr (constant_of_literal a))
         (Arith_expr (Constant_expr (constant_of_literal b))
            (Constant_expr (constant_of_literal c)) operator_minus)
         operator_minus) i =
      Inr (number_minus (constant_of_literal a)
             (number_minus (constant_of_literal b) (constant_of_literal c)))"
proof
  define m where "m = n - 7"
  with \<open>7 \<le> n\<close> have n: "n = Suc (Suc (Suc (Suc (Suc (Suc (Suc m))))))"
    by simp
  have blank: "\<not> isdigit CHR '' ''" "CHR '' '' \<noteq> CHR ''.''"
    and newline: "\<not> isdigit CHR 0x0A" "CHR 0x0A \<noteq> CHR ''.''"
    by (simp_all add: isdigit_def)
  define minus_sign where "minus_sign = \<lparr>l_type = type_symbol, l_value = ''-''\<rparr>"
  define line_end where "line_end = \<lparr>l_type = type_end, l_value = []\<rparr>"
  define ta where "ta = '' - '' @ b @ '' - '' @ c @ CHR 0x0A # rest"
  define tb where "tb = '' - '' @ c @ CHR 0x0A # rest"
  define lx_end where "lx_end = \<lparr>source = skip_newlines (CHR 0x0A # rest)\<rparr>"
  have la: "get_lexeme \<lparr>source = a @ ta\<rparr> =
      Inr (Some (make_lexeme type_number a), \<lparr>source = ta\<rparr>)"
    unfolding ta_def using get_lexeme_number [OF assms(1) blank] by simp
  have ma: "get_lexeme \<lparr>source = ta\<rparr> = Inr (Some minus_sign, \<lparr>source = CHR '' '' # b @ tb\<rparr>)"
    unfolding ta_def tb_def minus_sign_def by (simp add: get_lexeme_blank get_lexeme_minus)
  have lb: "get_lexeme \<lparr>source = CHR '' '' # b @ tb\<rparr> =
      Inr (Some (make_lexeme type_number b), \<lparr>source = tb\<rparr>)"
    unfolding tb_def get_lexeme_blank using get_lexeme_number [OF assms(2) blank] by simp
  have mb: "get_lexeme \<lparr>source = tb\<rparr> =
      Inr (Some minus_sign, \<lparr>source = CHR '' '' # c @ CHR 0x0A # rest\<rparr>)"
    unfolding tb_def minus_sign_def by (simp add: get_lexeme_blank get_lexeme_minus)
  have lc: "get_lexeme \<lparr>source = CHR '' '' # c @ CHR 0x0A # rest\<rparr> =
      Inr (Some (make_lexeme type_number c), \<lparr>source = CHR 0x0A # rest\<rparr>)"
    unfolding get_lexeme_blank using get_lexeme_number [OF assms(3) newline] by simp
  have le: "get_lexeme \<lparr>source = CHR 0x0A # rest\<rparr> = Inr (Some line_end, lx_end)"
    unfolding line_end_def lx_end_def by (rule get_lexeme_newline)
  have sym: "l_type minus_sign = type_symbol \<and> l_value minus_sign = ''-''"
    "l_type line_end = type_end"
    by (simp_all add: minus_sign_def line_end_def)
  have term_c: "parse_term (Suc (Suc m))
      \<lparr>lexer = \<lparr>source = CHR 0x0A # rest\<rparr>, next_symbol = Some (make_lexeme type_number c)\<rparr> =
      Inr (Constant_expr (constant_of_literal c), \<lparr>lexer = lx_end, next_symbol = Some line_end\<rparr>)"
    by (rule parse_term_number [OF le]) (simp add: sym)
  have expr_c: "parse_integer_expr (Suc (Suc (Suc m)))
      \<lparr>lexer = \<lparr>source = CHR 0x0A # rest\<rparr>, next_symbol = Some (make_lexeme type_number c)\<rparr> =
      Inr (Constant_expr (constant_of_literal c), \<lparr>lexer = lx_end, next_symbol = Some line_end\<rparr>)"
    by (simp add: term_c accept_def sym del: parse_term.simps)
  have term_b: "parse_term (Suc (Suc (Suc m)))
      \<lparr>lexer = \<lparr>source = tb\<rparr>, next_symbol = Some (make_lexeme type_number b)\<rparr> =
      Inr (Constant_expr (constant_of_literal b),
           \<lparr>lexer = \<lparr>source = CHR '' '' # c @ CHR 0x0A # rest\<rparr>, next_symbol = Some minus_sign\<rparr>)"
    by (rule parse_term_number [OF mb]) (simp add: sym)
  have expr_b: "parse_integer_expr (Suc (Suc (Suc (Suc m))))
      \<lparr>lexer = \<lparr>source = tb\<rparr>, next_symbol = Some (make_lexeme type_number b)\<rparr> =
      Inr (Arith_expr (Constant_expr (constant_of_literal b))
             (Constant_expr (constant_of_literal c)) operator_minus,
           \<lparr>lexer = lx_end, next_symbol = Some line_end\<rparr>)"
    by (subst parse_integer_expr.simps)
      (simp add: term_b expr_c accept_def accept_any_def sym lc
        del: parse_term.simps parse_integer_expr.simps)
  have term_a: "parse_term (Suc (Suc (Suc (Suc m))))
      \<lparr>lexer = \<lparr>source = ta\<rparr>, next_symbol = Some (make_lexeme type_number a)\<rparr> =
      Inr (Constant_expr (constant_of_literal a),
           \<lparr>lexer = \<lparr>source = CHR '' '' # b @ tb\<rparr>, next_symbol = Some minus_sign\<rparr>)"
    by (rule parse_term_number [OF ma]) (simp add: sym)
  have expr_a: "parse_integer_expr (Suc (Suc (Suc (Suc (Suc m)))))
      \<lparr>lexer = \<lparr>source = ta\<rparr>, next_symbol = Some (make_lexeme type_number a)\<rparr> =
      Inr (Arith_expr (Constant_expr (constant_of_literal a))
             (Arith_expr (Constant_expr (constant_of_literal b))
                (Constant_expr (constant_of_literal c)) operator_minus)
             operator_minus,
           \<lparr>lexer = lx_end, next_symbol = Some line_end\<rparr>)"
    by (subst parse_integer_expr.simps)
      (simp add: term_a expr_b accept_def accept_any_def sym lb
        del: parse_term.simps parse_integer_expr.simps)
  have numeric_a: "parse_numeric_expr n
      \<lparr>lexer = \<lparr>source = ta\<rparr>, next_symbol = Some (make_lexeme type_number a)\<rparr> =
      Inr (Arith_expr (Constant_expr (constant_of_literal a))
             (Arith_expr (Constant_expr (constant_of_literal b))
                (Constant_expr (constant_of_literal c)) operator_minus)
             operator_minus,
           \<lparr>lexer = lx_end, next_symbol = Some line_end\<rparr>)"
    unfolding n
    by (simp add: expr_a accept_def accept_relational_operator_def sym make_lexeme_number_type
        del: parse_integer_expr.simps)
  show "parse_expression_text n (a @ '' - '' @ b @ '' - '' @ c @ CHR 0x0A # rest) =
      Inr (Arith_expr (Constant_expr (constant_of_literal a))
             (Arith_expr (Constant_expr (constant_of_literal b))
                (Constant_expr (constant_of_literal c)) operator_minus)
             operator_minus)"
    using la numeric_a by (simp add: parse_expression_text_def bindE_def ta_def)
  show "evaluate
      (Arith_expr (Constant_expr (constant_of_literal a))
         (Arith_expr (Constant_expr (constant_of_literal b))
            (Constant_expr (constant_of_literal c)) operator_minus)
         operator_minus) i =
      Inr (number_minus (constant_of_literal a)
             (number_minus (constant_of_literal b) (constant_of_literal c)))"
    by (simp add: bindE_def apply_arith_def number_minus_def)
qed

lemma constant_of_literal_10_3_2:
  "constant_of_literal ''10'' = number_of_int 10"
  "constant_of_literal ''3'' = number_of_int 3"
  "constant_of_literal ''2'' = number_of_int 2"
  by (simp_all add: constant_of_literal_def make_lexeme_def extract_int_def isspace_def
      isdigit_def digits_value_def digit_value_def)

theorem subtraction_right_associative_witness:
  "number_text ''10'' \<and> number_text ''3'' \<and> number_text ''2'' \<and> (7::nat) \<le> 7 \<and>
   parse_expression_text 7 ''10 - 3 - 2\<newline>'' =
     Inr (Arith_expr (Constant_expr (number_of_int 10))
            (Arith_expr (Constant_expr (number_of_int 3)) (Constant_expr (number_of_int 2))
               operator_minus)
            operator_minus) \<and>
   evaluate
     (Arith_expr (Constant_expr (number_of_int 10))
        (Arith_expr (Constant_expr (number_of_int 3)) (Constant_expr (number_of_int 2))
           operator_minus)
        operator_minus) (new_interpreter (Block [] Map.empty)) =
     Inr (number_of_int 9) \<and>
   number_minus (number_minus (number_of_int 10) (number_of_int 3)) (number_of_int 2) =
     number_of_int 5"
proof -
  have t: "number_text ''10''" "number_text ''3''" "number_text ''2''"
    by (simp_all add: number_text_def isdigit_def)
  have v: "number_minus (number_of_int 10) (number_minus (number_of_int 3) (number_of_int 2)) =
      number_of_int 9"
    "number_minus (number_minus (number_of_int 10) (number_of_int 3)) (number_of_int 2) =
      number_of_int 5"
    by (simp_all add: number_minus_def minus_assign_def check_and_promote_def is_integral_def
        number_of_int_def)
  from subtraction_right_associative [OF t order_refl,
      of "[]" "new_interpreter (Block [] Map.empty)"] t v
  show ?thesis
    by (simp add: constant_of_literal_10_3_2)
qed

text \<open>The whole program \<^verbatim>\<open>PRINT 10 - 3 - 2\<close> prints 9.\<close>

lemma print_subtraction:
  "basic_main (Suc (Suc (Suc (Suc (Suc (Suc (Suc (Suc (Suc (Suc (Suc (Suc (Suc n)))))))))))))
     ''PRINT 10 - 3 - 2\<newline>'' input =
   (None, \<lparr>cin = input, cout = ''9\<newline>''\<rparr>)"
proof -
  have p: "parse (Suc (Suc (Suc (Suc (Suc (Suc (Suc (Suc (Suc (Suc (Suc (Suc (Suc n)))))))))))))
      \<lparr>source = ''PRINT 10 - 3 - 2\<newline>''\<rparr> =
    Inr (Block [Print_stmt [Numeric (Arith_expr (Constant_expr (number_of_int 10))
            (Arith_expr (Constant_expr (number_of_int 3)) (Constant_expr (number_of_int 2))
               operator_minus)
            operator_minus)]] Map.empty)"
    by (simp add: lexer_defs parser_defs)
  have r: "run (Suc (Suc (Suc m)))
      (new_interpreter (Block [Print_stmt [Numeric (Arith_expr (Constant_expr (number_of_int 10))
            (Arith_expr (Constant_expr (number_of_int 3)) (Constant_expr (number_of_int 2))
               operator_minus)
            operator_minus)]] Map.empty))
      \<lparr>cin = input, cout = []\<rparr> =
    (Inr \<lparr>blocks = [], should_stop = False\<rparr>, \<lparr>cin = input, cout = ''9\<newline>''\<rparr>)" for m
    apply (simp add: interpreter_defs number_defs)
    apply (simp add: show_int_defs)
    done
  show ?thesis
    unfolding basic_main_def p
    using r [of "Suc (Suc (Suc (Suc (Suc (Suc (Suc (Suc (Suc (Suc n)))))))))"]
    by simp
qed


section \<open>Duplicate labels\<close>

text \<open>\<^verbatim>\<open>parse_block\<close> inserts a label with \<^verbatim>\<open>std::map::insert\<close>, which keeps the entry
  that is already there: a label stays with the first statement that carries it.\<close>

lemma add_line_statements: "statements (add_line blk lbl s) = statements blk @ [s]"
  by (simp add: add_line_def)

lemma add_line_keeps:
  "jump_table blk lbl = Some it \<Longrightarrow> jump_table (add_line blk lbl' s) lbl = Some it"
  by (auto simp: add_line_def map_insert_def)

lemma add_line_new:
  "jump_table blk lbl = None \<Longrightarrow> lbl \<noteq> [] \<Longrightarrow>
   jump_table (add_line blk lbl s) lbl = Some (Iterator (length (statements blk)))"
  by (simp add: add_line_def map_insert_def)

text \<open>In the root block a jump to a label that two statements carry goes to the first of
  them: the program prints 1 and 2, and after the jump 1 and 2 again.\<close>

lemma duplicate_label_in_root_block:
  "basic_main 40 ''LET N = 0\<newline>10 PRINT 1\<newline>10 PRINT 2\<newline>LET N = N + 1\<newline>IF N < 2 THEN 10\<newline>'' [] =
   (None, \<lparr>cin = [], cout = ''1\<newline>2\<newline>1\<newline>2\<newline>''\<rparr>)"
proof -
  have p: "parse (Suc (Suc (Suc (Suc (Suc (Suc (Suc (Suc (Suc (Suc (Suc (Suc (Suc (Suc (Suc (Suc (Suc (Suc (Suc (Suc (Suc (Suc (Suc (Suc (Suc (Suc (Suc (Suc (Suc (Suc (Suc (Suc (Suc (Suc (Suc (Suc (Suc (Suc (Suc (Suc (0))))))))))))))))))))))))))))))))))))))))) \<lparr>source = ''LET N = 0\<newline>10 PRINT 1\<newline>10 PRINT 2\<newline>LET N = N + 1\<newline>IF N < 2 THEN 10\<newline>''\<rparr> =
      Inr (Block
      [Let_stmt ''n'' (Some (Constant_expr (number_of_int 0))) None,
       Print_stmt [Numeric (Constant_expr (number_of_int 1))],
       Print_stmt [Numeric (Constant_expr (number_of_int 2))],
       Let_stmt ''n''
         (Some (Arith_expr (Variable_expr ''n'') (Constant_expr (number_of_int 1))
            operator_plus)) None,
       If_goto_stmt
         (Relational_expr (Variable_expr ''n'') (Constant_expr (number_of_int 2))
            operator_less_than) ''10'' []]
      [''10'' \<mapsto> Iterator 1])"
    by (simp add: lexer_defs parser_defs Let_def)
  have r: "run (Suc (Suc (Suc (Suc (Suc (Suc (Suc (Suc (Suc (Suc (Suc (Suc (Suc (Suc (Suc (Suc (Suc (Suc (Suc (Suc (Suc (Suc (Suc (Suc (Suc (Suc (Suc (Suc (Suc (Suc (Suc (Suc (Suc (Suc (Suc (Suc (Suc (Suc (Suc (Suc (0)))))))))))))))))))))))))))))))))))))))))
      (new_interpreter (Block
      [Let_stmt ''n'' (Some (Constant_expr (number_of_int 0))) None,
       Print_stmt [Numeric (Constant_expr (number_of_int 1))],
       Print_stmt [Numeric (Constant_expr (number_of_int 2))],
       Let_stmt ''n''
         (Some (Arith_expr (Variable_expr ''n'') (Constant_expr (number_of_int 1))
            operator_plus)) None,
       If_goto_stmt
         (Relational_expr (Variable_expr ''n'') (Constant_expr (number_of_int 2))
            operator_less_than) ''10'' []]
      [''10'' \<mapsto> Iterator 1]))
      \<lparr>cin = [], cout = []\<rparr> =
      (Inr \<lparr>blocks = [], should_stop = False\<rparr>,
       \<lparr>cin = [], cout = ''1\<newline>2\<newline>1\<newline>2\<newline>''\<rparr>)"
    apply (simp add: interpreter_defs number_defs)
    apply (simp add: show_int_defs)
    done
  from p r show ?thesis
    by (simp add: basic_main_def eval_nat_numeral)
qed

text \<open>
  Claim C10 at a failing input.  The body of \<^verbatim>\<open>DO WHILE 1\<close> holds two statements with the
  label 10 and a \<^verbatim>\<open>GOTO 10\<close>.  Parsing succeeds and the second label is ignored, but the
  jump does not transfer control to the first occurrence: \<^verbatim>\<open>do_stmt\<close> owns a copy of the
  block that \<^verbatim>\<open>parse_block\<close> built, the jump table of the copy holds the iterators into
  the statement list of the original, and the original is destroyed when \<^verbatim>\<open>parse_do\<close>
  returns.  The program prints 1 and 2, \<^verbatim>\<open>interpreter::jump\<close> makes the dangling iterator
  the current statement of the frame, and the run loop dereferences it.
\<close>

theorem duplicate_label_in_nested_block:
  "basic_main 20 ''DO WHILE 1\<newline>10 PRINT 1\<newline>10 PRINT 2\<newline>GOTO 10\<newline>LOOP\<newline>'' [] =
   (Some (Undefined_behaviour ''dangling iterator''),
    \<lparr>cin = [], cout = ''1\<newline>2\<newline>''\<rparr>)"
proof -
  have p: "parse (Suc (Suc (Suc (Suc (Suc (Suc (Suc (Suc (Suc (Suc (Suc (Suc (Suc (Suc (Suc (Suc (Suc (Suc (Suc (Suc (0))))))))))))))))))))) \<lparr>source = ''DO WHILE 1\<newline>10 PRINT 1\<newline>10 PRINT 2\<newline>GOTO 10\<newline>LOOP\<newline>''\<rparr> =
      Inr (Block [Block_stmt (Do_stmt (Constant_expr (number_of_int 1))
      (Block
        [Empty_stmt,
         Print_stmt [Numeric (Constant_expr (number_of_int 1))],
         Print_stmt [Numeric (Constant_expr (number_of_int 2))],
         Goto_stmt ''10'']
        [''10'' \<mapsto> Dangling]))] Map.empty)"
    by (simp add: lexer_defs parser_defs Let_def)
  have r: "run (Suc (Suc (Suc (Suc (Suc (Suc (Suc (Suc (Suc (Suc (Suc (Suc (Suc (Suc (Suc (Suc (Suc (Suc (Suc (Suc (0)))))))))))))))))))))
      (new_interpreter (Block [Block_stmt (Do_stmt (Constant_expr (number_of_int 1))
      (Block
        [Empty_stmt,
         Print_stmt [Numeric (Constant_expr (number_of_int 1))],
         Print_stmt [Numeric (Constant_expr (number_of_int 2))],
         Goto_stmt ''10'']
        [''10'' \<mapsto> Dangling]))] Map.empty))
      \<lparr>cin = [], cout = []\<rparr> =
      (Inl (Undefined_behaviour ''dangling iterator''),
       \<lparr>cin = [], cout = ''1\<newline>2\<newline>''\<rparr>)"
    apply (simp add: interpreter_defs number_defs)
    apply (simp add: show_int_defs)
    done
  from p r show ?thesis
    by (simp add: basic_main_def eval_nat_numeral)
qed

text \<open>The block that \<^verbatim>\<open>parse_block\<close> builds for that body maps the label to the first
  of the two statements (the statement at position 0 is the empty rest of the line
  \<^verbatim>\<open>DO WHILE 1\<close>); it is the copy that loses the iterators.\<close>

lemma duplicate_label_body_table:
  "parse_block (Suc (Suc (Suc (Suc (Suc (Suc (Suc (Suc (Suc (Suc (Suc (Suc (Suc (Suc (Suc (Suc (Suc (Suc (Suc (Suc (0))))))))))))))))))))) [] \<lparr>lexer = \<lparr>source = ''10 PRINT 1\<newline>10 PRINT 2\<newline>GOTO 10\<newline>LOOP\<newline>''\<rparr>,
       next_symbol = Some \<lparr>l_type = type_end, l_value = []\<rparr>\<rparr> =
   Inr ((Block
          [Empty_stmt,
           Print_stmt [Numeric (Constant_expr (number_of_int 1))],
           Print_stmt [Numeric (Constant_expr (number_of_int 2))],
           Goto_stmt ''10'']
          [''10'' \<mapsto> Iterator 1], ''loop''),
        \<lparr>lexer = \<lparr>source = []\<rparr>, next_symbol = Some \<lparr>l_type = type_end, l_value = []\<rparr>\<rparr>)"
  by (simp add: lexer_defs parser_defs Let_def)


section \<open>FOR loops\<close>








lemma for_count_0: "f < i \<Longrightarrow> for_count i f s = 0"
  by (simp add: for_count_def)













text \<open>The third end-to-end scenario of the specification.\<close>

lemma scenario3_output:
  "basic_main 14 ''FOR I = 1 TO 3\<newline>PRINT I\<newline>NEXT I\<newline>'' [] =
   (None, \<lparr>cin = [], cout = ''1\<newline>2\<newline>3\<newline>''\<rparr>)"
proof -
  have p: "parse (Suc (Suc (Suc (Suc (Suc (Suc (Suc (Suc (Suc (Suc (Suc (Suc (Suc (Suc (0))))))))))))))) \<lparr>source = ''FOR I = 1 TO 3\<newline>PRINT I\<newline>NEXT I\<newline>''\<rparr> =
      Inr (Block
      [Block_stmt
        (For_stmt ''i'' (Constant_expr (number_of_int 1))
           (Constant_expr (number_of_int 3)) (Constant_expr (number_of_int 1))
           scenario3_body number_default number_default)]
      Map.empty)"
    by (simp add: lexer_defs parser_defs Let_def scenario3_body_def)
  have r: "run (Suc (Suc (Suc (Suc (Suc (Suc (Suc (Suc (Suc (Suc (Suc (Suc (Suc (Suc (0)))))))))))))))
      (new_interpreter (Block
      [Block_stmt
        (For_stmt ''i'' (Constant_expr (number_of_int 1))
           (Constant_expr (number_of_int 3)) (Constant_expr (number_of_int 1))
           scenario3_body number_default number_default)]
      Map.empty))
      \<lparr>cin = [], cout = []\<rparr> =
      (Inr \<lparr>blocks = [], should_stop = False\<rparr>, \<lparr>cin = [], cout = ''1\<newline>2\<newline>3\<newline>''\<rparr>)"
    apply (simp add: interpreter_defs number_defs scenario3_body_def number_default_def Let_def)
    apply (simp add: show_int_defs)
    done
  from p r show ?thesis
    by (simp add: basic_main_def eval_nat_numeral)
qed



end
